theory Spec2Isabelle
  imports Complex_Main "HOL-Library.Word" "HOL-Library.Monad_Syntax"
begin

section \<open>The static sampling-strategy store\<close>

text \<open>
  A shallow embedding of \<^verbatim>\<open>plugin/sampling/strategystore/static/strategy_store.go\<close>.

  \<^item> A Go byte slice and a Go string are both a \<open>string\<close>; a Go \<open>error\<close> is its message.
  \<^item> \<open>float64\<close> is the type variable \<open>'f\<close>: the store only copies sampling rates around.
    The two places where a float is computed with (the conversion \<open>int32(x)\<close> and the
    \<open>%f\<close> verb of \<open>fmt.Sprintf\<close>) are parameters.
  \<^item> A pointer that may be nil is an \<open>option\<close>; a computation that may hit a nil pointer
    returns an \<open>option\<close> too, \<open>None\<close> being the run-time panic.
  \<^item> Every method that writes to \<open>h.logger\<close> returns the lines it has written, as pairs of
    level and message (the structured zap fields are left out).
  \<^item> The goroutine of the reload loop is run on the list of events it receives; \<^verbatim>\<open>Close\<close>
    is the event that ends it. The helper \<^verbatim>\<open>deepCopy\<close> has no caller and is left out.
\<close>

type_synonym bytes = string
type_synonym error = string
type_synonym int32 = "32 word"

datatype level = DebugLevel | InfoLevel | WarnLevel | ErrorLevel

type_synonym log = "(level \<times> string) list"

subsection \<open>What the source file takes from elsewhere\<close>

record url =
  Scheme :: string
  Host :: string

text \<open>
  The configuration document. Modelled from the spec: the declarations of \<^verbatim>\<open>strategy\<close>,
  \<^verbatim>\<open>operationStrategy\<close>, \<^verbatim>\<open>serviceStrategy\<close> and \<^verbatim>\<open>strategies\<close> are not in the source
  file; the fields are the ones the code reads, the embedding of \<^verbatim>\<open>strategy\<close> in the two
  other structs is a record extension, and the two sequences hold entries, as in the spec's
  data model. (The code passes the entries by pointer; a JSON null inside one of the two
  arrays would be a nil entry, on which the code panics at the first field it reads. Such
  documents are outside the model.)
\<close>

record 'f strategy =
  Type :: string
  Param :: 'f

record 'f operationStrategy = "'f strategy" +
  Operation :: string

record 'f serviceStrategy = "'f strategy" +
  Service :: string
  OperationStrategies :: "'f operationStrategy list"

record 'f strategies =
  DefaultStrategy :: "'f serviceStrategy option"
  ServiceStrategies :: "'f serviceStrategy list"

text \<open>
  The messages of package \<^verbatim>\<open>api_v2\<close>, with the fields the code touches. The two fields of
  \<^verbatim>\<open>OperationSamplingStrategy\<close> carry the prefix \<open>op\<close>, since a record field name is a constant.
\<close>

datatype SamplingStrategyType = PROBABILISTIC | RATE_LIMITING

record 'f ProbabilisticSamplingStrategy =
  SamplingRate :: 'f

record RateLimitingSamplingStrategy =
  MaxTracesPerSecond :: int32

record 'f OperationSamplingStrategy =
  opOperation :: string
  opProbabilisticSampling :: "'f ProbabilisticSamplingStrategy option"

record 'f PerOperationSamplingStrategies =
  DefaultSamplingProbability :: 'f
  PerOperationStrategies :: "'f OperationSamplingStrategy list"

record 'f SamplingStrategyResponse =
  StrategyType :: SamplingStrategyType
  ProbabilisticSampling :: "'f ProbabilisticSamplingStrategy option"
  RateLimitingSampling :: "RateLimitingSamplingStrategy option"
  OperationSampling :: "'f PerOperationSamplingStrategies option"

text \<open>
  The parameters of the model: the constant \<^verbatim>\<open>defaultSamplingProbability\<close> and the rate of
  the bootstrap default strategy (both declared outside the source file), Go's conversion
  \<^verbatim>\<open>int32(float64)\<close>, the \<^verbatim>\<open>%f\<close> verb, \<^verbatim>\<open>url.Parse\<close> and the JSON decoder for a
  \<^verbatim>\<open>strategies\<close> document (\<open>None\<close>: the document is the JSON value null).
\<close>

record 'f ext =
  defaultSamplingProbability :: 'f
  bootstrapSamplingRate :: 'f
  float64_to_int32 :: "'f \<Rightarrow> int32"
  fmt_f :: "'f \<Rightarrow> string"
  url_Parse :: "string \<Rightarrow> error + url"
  json_decode :: "bytes \<Rightarrow> error + 'f strategies option"

text \<open>Modelled from the spec: the two type strings of section 6, declared outside the source file.\<close>

definition samplerTypeProbabilistic :: string where
  "samplerTypeProbabilistic = ''probabilistic''"

definition samplerTypeRateLimiting :: string where
  "samplerTypeRateLimiting = ''ratelimiting''"

text \<open>
  Modelled from the spec: \<^verbatim>\<open>defaultStrategyResponse()\<close> is declared outside the source file;
  the spec has it as a fixed probabilistic strategy with a fixed low rate.
\<close>

definition defaultStrategyResponse :: "'f ext \<Rightarrow> 'f SamplingStrategyResponse" where
  "defaultStrategyResponse c =
     \<lparr>StrategyType = PROBABILISTIC,
      ProbabilisticSampling = Some \<lparr>SamplingRate = bootstrapSamplingRate c\<rparr>,
      RateLimitingSampling = None,
      OperationSampling = None\<rparr>"

subsection \<open>Resolving one strategy\<close>

definition parseStrategy ::
  "'f ext \<Rightarrow> ('f, 'm) strategy_scheme \<Rightarrow> 'f SamplingStrategyResponse \<times> log" where
  "parseStrategy c strategy =
     (if Type strategy = samplerTypeProbabilistic then
        (\<lparr>StrategyType = PROBABILISTIC,
          ProbabilisticSampling = Some \<lparr>SamplingRate = Param strategy\<rparr>,
          RateLimitingSampling = None,
          OperationSampling = None\<rparr>, [])
      else if Type strategy = samplerTypeRateLimiting then
        (\<lparr>StrategyType = RATE_LIMITING,
          ProbabilisticSampling = None,
          RateLimitingSampling =
            Some \<lparr>MaxTracesPerSecond = float64_to_int32 c (Param strategy)\<rparr>,
          OperationSampling = None\<rparr>, [])
      else
        (defaultStrategyResponse c, [(WarnLevel, ''Failed to parse sampling strategy'')]))"

definition operation_warning :: "'f ext \<Rightarrow> string \<Rightarrow> 'f \<Rightarrow> string" where
  "operation_warning c operation p =
     ''Operation strategies only supports probabilistic sampling at the moment,''
       @ [CHR 0x27] @ operation @ [CHR 0x27]
       @ '' defaulting to probabilistic sampling with probability '' @ fmt_f c p"

text \<open>
  The two results \<open>(s, ok)\<close> are one option: \<open>(nil, false)\<close> is \<open>None\<close>, \<open>(s, true)\<close> is
  \<open>Some s\<close>. The argument \<open>strategy\<close> is the struct the code's pointer refers to; the code
  dereferences the pointer unguarded, and a nil entry is outside the model (see above).
\<close>

definition parseOperationStrategy ::
  "'f ext \<Rightarrow> 'f operationStrategy \<Rightarrow> 'f PerOperationSamplingStrategies
     \<Rightarrow> 'f SamplingStrategyResponse option \<times> log" where
  "parseOperationStrategy c strategy parent =
     (let (s, lg) = parseStrategy c strategy in
      if StrategyType s = RATE_LIMITING then
        (None, lg @ [(WarnLevel,
           operation_warning c (Operation strategy) (DefaultSamplingProbability parent))])
      else (Some s, lg))"

text \<open>One round of the loop over \<^verbatim>\<open>strategy.OperationStrategies\<close>.\<close>

definition operationStrategy_step ::
  "'f ext \<Rightarrow> 'f operationStrategy \<Rightarrow> 'f PerOperationSamplingStrategies \<times> log
     \<Rightarrow> 'f PerOperationSamplingStrategies \<times> log" where
  "operationStrategy_step c operationStrategy acc =
     (let (opS, lg) = acc in
      case parseOperationStrategy c operationStrategy opS of
        (None, w) \<Rightarrow> (opS, lg @ w)
      | (Some s, w) \<Rightarrow>
          (opS\<lparr>PerOperationStrategies := PerOperationStrategies opS @
             [\<lparr>opOperation = Operation operationStrategy,
               opProbabilisticSampling = ProbabilisticSampling s\<rparr>]\<rparr>, lg @ w))"

definition parseServiceStrategies ::
  "'f ext \<Rightarrow> 'f serviceStrategy \<Rightarrow> ('f SamplingStrategyResponse \<times> log) option" where
  "parseServiceStrategies c strategy =
     (let (resp, lg) = parseStrategy c strategy in
      if length (OperationStrategies strategy) = 0 then Some (resp, lg)
      else do {
        p \<leftarrow> (if StrategyType resp = PROBABILISTIC
              then map_option SamplingRate (ProbabilisticSampling resp)
              else Some (defaultSamplingProbability c));
        let opS = \<lparr>DefaultSamplingProbability = p, PerOperationStrategies = []\<rparr>;
        let (opS, lg) = fold (operationStrategy_step c) (OperationStrategies strategy) (opS, lg);
        Some (resp\<lparr>OperationSampling := Some opS\<rparr>, lg)
      })"

subsection \<open>Merging per-operation strategies\<close>

definition mergePerOperationSamplingStrategies ::
  "'f OperationSamplingStrategy list \<Rightarrow> 'f OperationSamplingStrategy list
     \<Rightarrow> 'f OperationSamplingStrategy list" where
  "mergePerOperationSamplingStrategies a b =
     (let m = fold (\<lambda>aOp m. m(opOperation aOp := True)) a (\<lambda>_. False)
      in fold (\<lambda>bOp a. if m (opOperation bOp) then a else a @ [bOp]) b a)"

subsection \<open>The store\<close>

record 'f storedStrategies =
  defaultStrategy :: "'f SamplingStrategyResponse"
  serviceStrategies :: "string \<rightharpoonup> 'f SamplingStrategyResponse"

text \<open>
  Modelled from the spec: \<^verbatim>\<open>defaultStrategies()\<close> is declared outside the source file; the
  spec's bootstrap snapshot has the default strategy response and no service.
\<close>

definition defaultStrategies :: "'f ext \<Rightarrow> 'f storedStrategies" where
  "defaultStrategies c =
     \<lparr>defaultStrategy = defaultStrategyResponse c, serviceStrategies = Map.empty\<rparr>"

text \<open>
  The atomic cell \<^verbatim>\<open>h.storedStrategies\<close> holds a pointer to a \<^verbatim>\<open>storedStrategies\<close> object
  that nobody writes to once it is stored. The model keeps the address next to the object,
  and counts the objects allocated so far: a fresh object gets the next address, so two
  loads return the same reference exactly when the addresses are equal. The constructor
  stores a snapshot before anything else happens, so the cell is never empty.
\<close>

record 'f strategyStore =
  storedStrategies :: "nat \<times> 'f storedStrategies"
  allocated :: nat

definition Store ::
  "'f storedStrategies \<Rightarrow> 'f strategyStore \<Rightarrow> 'f strategyStore" where
  "Store newStore h =
     h\<lparr>storedStrategies := (allocated h, newStore), allocated := Suc (allocated h)\<rparr>"

definition GetSamplingStrategy ::
  "'f strategyStore \<Rightarrow> string
     \<Rightarrow> ('f SamplingStrategyResponse \<times> error option) \<times> log" where
  "GetSamplingStrategy h serviceName =
     (let ss = snd (storedStrategies h) in
      case serviceStrategies ss serviceName of
        Some strategy \<Rightarrow> ((strategy, None), [])
      | None \<Rightarrow>
          ((defaultStrategy ss, None),
           [(DebugLevel, ''sampling strategy not found, using default'')]))"

subsection \<open>Resolving a configuration\<close>

text \<open>
  One round of the loop over \<^verbatim>\<open>strategies.ServiceStrategies\<close>. \<open>r\<close> is the object that
  \<^verbatim>\<open>newStore.serviceStrategies[s.Service]\<close> points to during the round; the writes through
  that pointer are a second update of the map entry.
  The argument \<open>s\<close> is the struct the range variable points to; the code reads
  \<^verbatim>\<open>s.Service\<close> unguarded, and a nil entry is outside the model (see above), so what is
  proved of a document is proved of the documents without a null element in the two arrays.
\<close>

definition serviceStrategy_step ::
  "'f ext \<Rightarrow> bool \<Rightarrow> 'f serviceStrategy \<Rightarrow> 'f storedStrategies \<times> log
     \<Rightarrow> ('f storedStrategies \<times> log) option" where
  "serviceStrategy_step c merge s acc =
     (let (newStore, lg) = acc in
      do {
        (r, w) \<leftarrow> parseServiceStrategies c s;
        let newStore =
          newStore\<lparr>serviceStrategies := (serviceStrategies newStore)(Service s \<mapsto> r)\<rparr>;
        let lg = lg @ w;
        case OperationSampling r of
          None \<Rightarrow>
            (case (OperationSampling (defaultStrategy newStore), ProbabilisticSampling r) of
               (Some dOpS, Some p) \<Rightarrow>
                 Some (newStore\<lparr>serviceStrategies := (serviceStrategies newStore)
                         (Service s \<mapsto> r\<lparr>OperationSampling :=
                            Some (dOpS\<lparr>DefaultSamplingProbability := SamplingRate p\<rparr>)\<rparr>)\<rparr>,
                       lg)
             | _ \<Rightarrow> Some (newStore, lg))
        | Some opS \<Rightarrow>
            if merge then do {
              dOpS \<leftarrow> OperationSampling (defaultStrategy newStore);
              Some (newStore\<lparr>serviceStrategies := (serviceStrategies newStore)
                      (Service s \<mapsto> r\<lparr>OperationSampling :=
                         Some (opS\<lparr>PerOperationStrategies :=
                           mergePerOperationSamplingStrategies
                             (PerOperationStrategies opS) (PerOperationStrategies dOpS)\<rparr>)\<rparr>)\<rparr>,
                    lg)
            } else Some (newStore, lg)
      })"

fun serviceStrategies_loop ::
  "'f ext \<Rightarrow> bool \<Rightarrow> 'f serviceStrategy list \<Rightarrow> 'f storedStrategies \<times> log
     \<Rightarrow> ('f storedStrategies \<times> log) option" where
  "serviceStrategies_loop c merge [] acc = Some acc"
| "serviceStrategies_loop c merge (s # ss) acc =
     do {
       acc' \<leftarrow> serviceStrategy_step c merge s acc;
       serviceStrategies_loop c merge ss acc'
     }"

text \<open>
  The slices of this file are nil or built by \<^verbatim>\<open>append\<close>, so a slice is nil exactly when it
  is empty, and \<^verbatim>\<open>PerOperationStrategies == nil\<close> is \<open>PerOperationStrategies = []\<close>.
\<close>

definition parseStrategies ::
  "'f ext \<Rightarrow> 'f strategies option \<Rightarrow> 'f strategyStore
     \<Rightarrow> ('f strategyStore \<times> log) option" where
  "parseStrategies c strategies h =
     (case strategies of
        None \<Rightarrow>
          Some (h, [(InfoLevel,
            ''No sampling strategies provided or URL is unavailable, using defaults'')])
      | Some cfg \<Rightarrow> do {
          let newStore = defaultStrategies c;
          (newStore, lg) \<leftarrow>
            (case DefaultStrategy cfg of
               None \<Rightarrow> Some (newStore, [])
             | Some d \<Rightarrow> do {
                 (r, w) \<leftarrow> parseServiceStrategies c d;
                 Some (newStore\<lparr>defaultStrategy := r\<rparr>, w)
               });
          let merge =
            (case OperationSampling (defaultStrategy newStore) of
               None \<Rightarrow> False
             | Some dOpS \<Rightarrow> PerOperationStrategies dOpS \<noteq> []);
          (newStore, lg) \<leftarrow>
            serviceStrategies_loop c merge (ServiceStrategies cfg) (newStore, lg);
          Some (Store newStore h, lg)
        })"

subsection \<open>Fetching the raw bytes\<close>

definition nullJSON :: bytes where
  "nullJSON = ''null''"

text \<open>
  What \<^verbatim>\<open>http.Get\<close> answers: an error, or a response with its status code, its status
  line and the outcome of reading its body.
\<close>

datatype http_result = GetFailed error | Response int string "error + bytes"

text \<open>What the outside world answers at the moment of one call of a loader.\<close>

record world =
  http_Get :: "string \<Rightarrow> http_result"
  os_ReadFile :: "string \<Rightarrow> error + bytes"

definition StatusOK :: int where
  "StatusOK = 200"

definition StatusServiceUnavailable :: int where
  "StatusServiceUnavailable = 503"

definition downloadSamplingStrategies :: "world \<Rightarrow> string \<Rightarrow> (error + bytes) \<times> log" where
  "downloadSamplingStrategies w url =
     (let lg = [(InfoLevel, ''Downloading sampling strategies'')] in
      case http_Get w url of
        GetFailed err \<Rightarrow> (Inl (''failed to download sampling strategies: '' @ err), lg)
      | Response statusCode status body \<Rightarrow>
          (case body of
             Inl err \<Rightarrow>
               (Inl (''failed to read sampling strategies HTTP response body: '' @ err), lg)
           | Inr buf \<Rightarrow>
               if statusCode = StatusServiceUnavailable then (Inr nullJSON, lg)
               else if statusCode \<noteq> StatusOK then
                 (Inl (''receiving '' @ status @ '' while downloading strategies file: '' @ buf),
                  lg)
               else (Inr buf, lg)))"

definition isURL :: "'f ext \<Rightarrow> string \<Rightarrow> bool" where
  "isURL c str =
     (case url_Parse c str of
        Inl err \<Rightarrow> False
      | Inr u \<Rightarrow> Scheme u \<noteq> [] \<and> Host u \<noteq> [])"

type_synonym strategyLoader = "world \<Rightarrow> (error + bytes) \<times> log"

text \<open>\<open>os_ReadFile w f\<close> stands for \<^verbatim>\<open>os.ReadFile(filepath.Clean(f))\<close>.\<close>

definition samplingStrategyLoader :: "'f ext \<Rightarrow> string \<Rightarrow> strategyLoader" where
  "samplingStrategyLoader c strategiesFile =
     (if isURL c strategiesFile then (\<lambda>w. downloadSamplingStrategies w strategiesFile)
      else (\<lambda>w.
        let lg = [(InfoLevel, ''Loading sampling strategies'')] in
        case os_ReadFile w strategiesFile of
          Inl err \<Rightarrow>
            (Inl (''failed to read strategies file '' @ strategiesFile @ '': '' @ err), lg)
        | Inr currBytes \<Rightarrow> (Inr currBytes, lg)))"

subsection \<open>Decoding, loading and reloading\<close>

text \<open>
  \<^verbatim>\<open>json.Unmarshal\<close> on a \<^verbatim>\<open>strategies\<close> document. The decoder is a parameter; what the
  model fixes is that the four bytes \<^verbatim>\<open>null\<close> are the JSON value null. The result \<open>None\<close>
  is that value: Go sets a pointer target to nil and leaves a struct target as it was.
\<close>

definition json_Unmarshal :: "'f ext \<Rightarrow> bytes \<Rightarrow> error + 'f strategies option" where
  "json_Unmarshal c data = (if data = nullJSON then Inr None else json_decode c data)"

definition zero_strategies :: "'f strategies" where
  "zero_strategies = \<lparr>DefaultStrategy = None, ServiceStrategies = []\<rparr>"

definition loadStrategies ::
  "'f ext \<Rightarrow> strategyLoader \<Rightarrow> world \<Rightarrow> (error + 'f strategies option) \<times> log" where
  "loadStrategies c loadFn w =
     (case loadFn w of
        (Inl err, lg) \<Rightarrow> (Inl err, lg)
      | (Inr strategyBytes, lg) \<Rightarrow>
          (case json_Unmarshal c strategyBytes of
             Inl err \<Rightarrow> (Inl (''failed to unmarshal strategies: '' @ err), lg)
           | Inr strategies \<Rightarrow> (Inr strategies, lg)))"

text \<open>The target is a \<^verbatim>\<open>strategies\<close> struct, not a pointer: null leaves its zero value.\<close>

definition updateSamplingStrategy ::
  "'f ext \<Rightarrow> bytes \<Rightarrow> 'f strategyStore \<Rightarrow> ((error option \<times> 'f strategyStore) \<times> log) option" where
  "updateSamplingStrategy c data h =
     (case json_Unmarshal c data of
        Inl err \<Rightarrow> Some ((Some (''failed to unmarshal sampling strategies: '' @ err), h), [])
      | Inr v \<Rightarrow> do {
          let strategies = (case v of None \<Rightarrow> zero_strategies | Some s \<Rightarrow> s);
          (h, lg) \<leftarrow> parseStrategies c (Some strategies) h;
          Some ((None, h), lg @ [(InfoLevel, ''Updated sampling strategies:'' @ data)])
        })"

definition reloadSamplingStrategy ::
  "'f ext \<Rightarrow> strategyLoader \<Rightarrow> world \<Rightarrow> string \<Rightarrow> 'f strategyStore
     \<Rightarrow> ((string \<times> 'f strategyStore) \<times> log) option" where
  "reloadSamplingStrategy c loadFn w lastValue h =
     (case loadFn w of
        (Inl err, lg) \<Rightarrow>
          Some ((lastValue, h), lg @ [(ErrorLevel, ''failed to re-load sampling strategies'')])
      | (Inr newValue, lg) \<Rightarrow>
          if lastValue = newValue then Some ((lastValue, h), lg)
          else do {
            ((err, h), lg') \<leftarrow> updateSamplingStrategy c newValue h;
            case err of
              Some e \<Rightarrow>
                Some ((lastValue, h),
                      lg @ lg' @ [(ErrorLevel, ''failed to update sampling strategies'')])
            | None \<Rightarrow> Some ((newValue, h), lg @ lg')
          })"

text \<open>
  The background loop, run on the events its \<^verbatim>\<open>select\<close> receives: a tick of the timer,
  with what the world answers to the loader at that moment, or the cancellation of the
  context. With no event left the loop is waiting, and the result is the state so far.
\<close>

datatype event = Tick world | Done

fun autoUpdate_loop ::
  "'f ext \<Rightarrow> strategyLoader \<Rightarrow> event list \<Rightarrow> string \<Rightarrow> 'f strategyStore
     \<Rightarrow> ((string \<times> 'f strategyStore) \<times> log) option" where
  "autoUpdate_loop c loader [] lastValue h = Some ((lastValue, h), [])"
| "autoUpdate_loop c loader (Done # es) lastValue h = Some ((lastValue, h), [])"
| "autoUpdate_loop c loader (Tick w # es) lastValue h =
     do {
       ((lastValue, h), lg) \<leftarrow> reloadSamplingStrategy c loader w lastValue h;
       ((lastValue, h), lg') \<leftarrow> autoUpdate_loop c loader es lastValue h;
       Some ((lastValue, h), lg @ lg')
     }"

definition autoUpdateStrategies ::
  "'f ext \<Rightarrow> strategyLoader \<Rightarrow> event list \<Rightarrow> 'f strategyStore
     \<Rightarrow> ('f strategyStore \<times> log) option" where
  "autoUpdateStrategies c loader es h =
     do {
       ((lastValue, h), lg) \<leftarrow> autoUpdate_loop c loader es nullJSON h;
       Some (h, lg)
     }"

subsection \<open>Construction\<close>

text \<open>
  Modelled from the spec: \<^verbatim>\<open>Options\<close> is declared outside the source file; the two fields
  are the ones the constructor reads.
\<close>

record Options =
  StrategiesFile :: string
  ReloadInterval :: int

text \<open>
  The result is the error, or the store together with the loader handed to the goroutine
  \<^verbatim>\<open>autoUpdateStrategies\<close> when the constructor starts one.
\<close>

definition NewStrategyStore ::
  "'f ext \<Rightarrow> Options \<Rightarrow> world
     \<Rightarrow> ((error + 'f strategyStore \<times> strategyLoader option) \<times> log) option" where
  "NewStrategyStore c options w =
     (let h = \<lparr>storedStrategies = (0, defaultStrategies c), allocated = 1\<rparr> in
      if StrategiesFile options = [] then do {
        (h, lg) \<leftarrow> parseStrategies c None h;
        Some (Inr (h, None), lg)
      } else
        let loadFn = samplingStrategyLoader c (StrategiesFile options) in
        case loadStrategies c loadFn w of
          (Inl err, lg) \<Rightarrow> Some (Inl err, lg)
        | (Inr strategies, lg) \<Rightarrow> do {
            (h, lg') \<leftarrow> parseStrategies c strategies h;
            Some (Inr (h, if ReloadInterval options > 0 then Some loadFn else None), lg @ lg')
          })"

subsection \<open>A property of resolved strategies\<close>

text \<open>A resolved strategy has at most one per-operation entry for each operation name.\<close>

definition unique_operations :: "'f SamplingStrategyResponse \<Rightarrow> bool" where
  "unique_operations r =
     (case OperationSampling r of
        None \<Rightarrow> True
      | Some opS \<Rightarrow> distinct (map opOperation (PerOperationStrategies opS)))"

subsection \<open>Concrete inputs\<close>

text \<open>
  An instance of the parameters over the reals, with the constants at one in a thousand, a
  conversion that truncates, a \<^verbatim>\<open>%f\<close> that is left unexpanded, a URL parser that knows the
  \<^verbatim>\<open>http://\<close> prefix, and a JSON decoder that knows one document and rejects all others.
\<close>

definition truncate_int32 :: "real \<Rightarrow> int32" where
  "truncate_int32 x = word_of_int (if 0 \<le> x then \<lfloor>x\<rfloor> else \<lceil>x\<rceil>)"

definition parse_http_url :: "string \<Rightarrow> error + url" where
  "parse_http_url s =
     (if take 7 s = ''http://'' then Inr \<lparr>Scheme = ''http'', Host = drop 7 s\<rparr>
      else Inr \<lparr>Scheme = [], Host = []\<rparr>)"

definition foo_document :: bytes where
  "foo_document =
     ''{\"service_strategies\":[{\"service\":\"foo\",\"type\":\"probabilistic\",\"param\":0.8}]}''"

definition foo_strategies :: "real strategies" where
  "foo_strategies =
     \<lparr>DefaultStrategy = None,
      ServiceStrategies =
        [\<lparr>Type = ''probabilistic'', Param = 0.8, Service = ''foo'',
          OperationStrategies = []\<rparr>]\<rparr>"

definition decode_foo :: "bytes \<Rightarrow> error + real strategies option" where
  "decode_foo data =
     (if data = foo_document then Inr (Some foo_strategies)
      else Inl ''invalid character'')"

definition example_ext :: "real ext" where
  "example_ext =
     \<lparr>defaultSamplingProbability = 0.001,
      bootstrapSamplingRate = 0.001,
      float64_to_int32 = truncate_int32,
      fmt_f = (\<lambda>x. ''%f''),
      url_Parse = parse_http_url,
      json_decode = decode_foo\<rparr>"

text \<open>Documents, and what they resolve to.\<close>

definition default_with_operations :: "real serviceStrategy" where
  "default_with_operations =
     \<lparr>Type = ''probabilistic'', Param = 0.5, Service = [],
      OperationStrategies =
        [\<lparr>Type = ''probabilistic'', Param = 0.1, Operation = ''A''\<rparr>,
         \<lparr>Type = ''probabilistic'', Param = 0.2, Operation = ''B''\<rparr>]\<rparr>"

definition foo_with_operation :: "real serviceStrategy" where
  "foo_with_operation =
     \<lparr>Type = ''probabilistic'', Param = 0.8, Service = ''foo'',
      OperationStrategies =
        [\<lparr>Type = ''probabilistic'', Param = 0.9, Operation = ''A''\<rparr>]\<rparr>"

definition resolved_default_with_operations :: "real SamplingStrategyResponse" where
  "resolved_default_with_operations =
     \<lparr>StrategyType = PROBABILISTIC,
      ProbabilisticSampling = Some \<lparr>SamplingRate = 0.5\<rparr>,
      RateLimitingSampling = None,
      OperationSampling = Some
        \<lparr>DefaultSamplingProbability = 0.5,
         PerOperationStrategies =
           [\<lparr>opOperation = ''A'', opProbabilisticSampling = Some \<lparr>SamplingRate = 0.1\<rparr>\<rparr>,
            \<lparr>opOperation = ''B'', opProbabilisticSampling = Some \<lparr>SamplingRate = 0.2\<rparr>\<rparr>]\<rparr>\<rparr>"

definition rate_limited_operation :: "real operationStrategy" where
  "rate_limited_operation = \<lparr>Type = ''ratelimiting'', Param = 5, Operation = ''C''\<rparr>"

definition foo_store :: "real strategyStore" where
  "foo_store =
     \<lparr>storedStrategies =
        (1, \<lparr>defaultStrategy = defaultStrategyResponse example_ext,
             serviceStrategies = [''foo'' \<mapsto>
               \<lparr>StrategyType = PROBABILISTIC,
                ProbabilisticSampling = Some \<lparr>SamplingRate = 0.8\<rparr>,
                RateLimitingSampling = None,
                OperationSampling = None\<rparr>]\<rparr>),
      allocated = 2\<rparr>"

definition bar_without_operations :: "real serviceStrategy" where
  "bar_without_operations =
     \<lparr>Type = ''probabilistic'', Param = 0.3, Service = ''bar'', OperationStrategies = []\<rparr>"

definition baz_rate_limited :: "real serviceStrategy" where
  "baz_rate_limited =
     \<lparr>Type = ''ratelimiting'', Param = 10, Service = ''baz'', OperationStrategies = []\<rparr>"

definition inherit_strategies :: "real strategies" where
  "inherit_strategies =
     \<lparr>DefaultStrategy = Some default_with_operations,
      ServiceStrategies = [bar_without_operations, baz_rate_limited]\<rparr>"

definition bootstrap_store :: "real strategyStore" where
  "bootstrap_store = \<lparr>storedStrategies = (0, defaultStrategies example_ext), allocated = 1\<rparr>"

definition duplicate_strategies :: "real strategies" where
  "duplicate_strategies =
     \<lparr>DefaultStrategy = None,
      ServiceStrategies =
        [\<lparr>Type = ''probabilistic'', Param = 0.8, Service = ''foo'',
          OperationStrategies =
            [\<lparr>Type = ''probabilistic'', Param = 0.1, Operation = ''A''\<rparr>,
             \<lparr>Type = ''probabilistic'', Param = 0.2, Operation = ''A''\<rparr>]\<rparr>]\<rparr>"

definition duplicate_response :: "real SamplingStrategyResponse" where
  "duplicate_response =
     \<lparr>StrategyType = PROBABILISTIC,
      ProbabilisticSampling = Some \<lparr>SamplingRate = 0.8\<rparr>,
      RateLimitingSampling = None,
      OperationSampling = Some
        \<lparr>DefaultSamplingProbability = 0.8,
         PerOperationStrategies =
           [\<lparr>opOperation = ''A'', opProbabilisticSampling = Some \<lparr>SamplingRate = 0.1\<rparr>\<rparr>,
            \<lparr>opOperation = ''A'', opProbabilisticSampling = Some \<lparr>SamplingRate = 0.2\<rparr>\<rparr>]\<rparr>\<rparr>"

text \<open>
  A store configured with a URL, three answers of the outside world (to the URL and to
  the file alike), and the stores that the runs below end in.
\<close>

definition example_options :: Options where
  "example_options =
     \<lparr>StrategiesFile = ''http://jaeger/strategies.json'', ReloadInterval = 10000000000\<rparr>"

definition serving :: "bytes \<Rightarrow> world" where
  "serving data =
     \<lparr>http_Get = (\<lambda>url. Response 200 ''200 OK'' (Inr data)),
      os_ReadFile = (\<lambda>file. Inr data)\<rparr>"

definition not_found :: world where
  "not_found =
     \<lparr>http_Get = (\<lambda>url. Response 404 ''404 Not Found'' (Inr ''not found'')),
      os_ReadFile = (\<lambda>file. Inl ''no such file or directory'')\<rparr>"

definition unavailable :: world where
  "unavailable =
     \<lparr>http_Get = (\<lambda>url. Response 503 ''503 Service Unavailable'' (Inr [])),
      os_ReadFile = (\<lambda>file. Inl ''no such file or directory'')\<rparr>"

definition refreshed_store :: "real strategyStore" where
  "refreshed_store =
     foo_store\<lparr>storedStrategies := (2, snd (storedStrategies foo_store)), allocated := 3\<rparr>"

definition reset_store :: "real strategyStore" where
  "reset_store = \<lparr>storedStrategies = (3, defaultStrategies example_ext), allocated = 4\<rparr>"

text \<open>
  Documents with an operation strategy that is dropped: as the only one of a service, and
  next to another one; and the store the latter resolves to.
\<close>

definition sole_dropped_strategies :: "real strategies" where
  "sole_dropped_strategies =
     \<lparr>DefaultStrategy = Some default_with_operations,
      ServiceStrategies =
        [baz_rate_limited\<lparr>OperationStrategies :=
           [\<lparr>Type = ''ratelimiting'', Param = 5, Operation = ''A''\<rparr>]\<rparr>]\<rparr>"

definition without_dropped_strategies :: "real strategies" where
  "without_dropped_strategies =
     \<lparr>DefaultStrategy = Some default_with_operations,
      ServiceStrategies = [baz_rate_limited]\<rparr>"

definition dropped_strategies :: "real strategies" where
  "dropped_strategies =
     \<lparr>DefaultStrategy = Some default_with_operations,
      ServiceStrategies =
        [foo_with_operation\<lparr>OperationStrategies :=
           OperationStrategies foo_with_operation @ [rate_limited_operation]\<rparr>]\<rparr>"

definition merged_store :: "real strategyStore" where
  "merged_store =
     \<lparr>storedStrategies =
        (1, \<lparr>defaultStrategy = resolved_default_with_operations,
             serviceStrategies = [''foo'' \<mapsto>
               \<lparr>StrategyType = PROBABILISTIC,
                ProbabilisticSampling = Some \<lparr>SamplingRate = 0.8\<rparr>,
                RateLimitingSampling = None,
                OperationSampling = Some
                  \<lparr>DefaultSamplingProbability = 0.8,
                   PerOperationStrategies =
                     [\<lparr>opOperation = ''A'',
                       opProbabilisticSampling = Some \<lparr>SamplingRate = 0.9\<rparr>\<rparr>,
                      \<lparr>opOperation = ''B'',
                       opProbabilisticSampling = Some \<lparr>SamplingRate = 0.2\<rparr>\<rparr>]\<rparr>\<rparr>]\<rparr>),
      allocated = 2\<rparr>"

section \<open>Properties\<close>

subsection \<open>Resolution never panics\<close>

lemma parseStrategy_probabilistic:
  "StrategyType (fst (parseStrategy c s)) = PROBABILISTIC \<Longrightarrow>
     \<exists>p. ProbabilisticSampling (fst (parseStrategy c s)) = Some p"
  by (simp add: parseStrategy_def defaultStrategyResponse_def split: if_splits)

lemma parseStrategy_no_OperationSampling:
  "OperationSampling (fst (parseStrategy c s)) = None"
  by (simp add: parseStrategy_def defaultStrategyResponse_def)

lemma parseStrategy_rate_limiting_iff:
  "StrategyType (fst (parseStrategy c s)) = RATE_LIMITING \<longleftrightarrow>
     Type s = samplerTypeRateLimiting"
  by (simp add: parseStrategy_def defaultStrategyResponse_def samplerTypeProbabilistic_def
      samplerTypeRateLimiting_def)

lemma parseStrategy_rate_limiting_log:
  "StrategyType (fst (parseStrategy c s)) = RATE_LIMITING \<Longrightarrow> snd (parseStrategy c s) = []"
  by (simp add: parseStrategy_def defaultStrategyResponse_def split: if_splits)

lemma operationStrategy_step_fields:
  "DefaultSamplingProbability (fst (operationStrategy_step c x acc)) =
     DefaultSamplingProbability (fst acc)"
  by (cases acc) (simp add: operationStrategy_step_def parseOperationStrategy_def
      split: prod.splits option.splits if_splits)

lemma operationStrategy_fold_entries:
  "PerOperationStrategies (fst (fold (operationStrategy_step c) xs (opS, lg))) =
     PerOperationStrategies opS @
     map (\<lambda>x. \<lparr>opOperation = Operation x,
               opProbabilisticSampling = ProbabilisticSampling (fst (parseStrategy c x))\<rparr>)
       (filter (\<lambda>x. StrategyType (fst (parseStrategy c x)) \<noteq> RATE_LIMITING) xs)"
proof (induction xs arbitrary: opS lg)
  case Nil
  show ?case by simp
next
  case (Cons x xs)
  obtain opS' lg' where step: "operationStrategy_step c x (opS, lg) = (opS', lg')"
    by (cases "operationStrategy_step c x (opS, lg)")
  have "PerOperationStrategies opS' = PerOperationStrategies opS @
      (if StrategyType (fst (parseStrategy c x)) \<noteq> RATE_LIMITING
       then [\<lparr>opOperation = Operation x,
               opProbabilisticSampling = ProbabilisticSampling (fst (parseStrategy c x))\<rparr>]
       else [])"
    using step
    by (auto simp: operationStrategy_step_def parseOperationStrategy_def
        split: prod.splits option.splits if_splits)
  then show ?case using Cons.IH [of opS' lg'] step by simp
qed

lemma operationStrategy_fold_default:
  "DefaultSamplingProbability (fst (fold (operationStrategy_step c) xs acc)) =
     DefaultSamplingProbability (fst acc)"
  by (induction xs arbitrary: acc) (simp_all add: operationStrategy_step_fields)

lemma parseServiceStrategies_total:
  "\<exists>r lg. parseServiceStrategies c s = Some (r, lg)"
proof -
  obtain resp lg where p: "parseStrategy c s = (resp, lg)"
    by (cases "parseStrategy c s")
  show ?thesis
  proof (cases "StrategyType resp = PROBABILISTIC")
    case True
    with parseStrategy_probabilistic [of c s] p obtain q where
      "ProbabilisticSampling resp = Some q" by auto
    with p True show ?thesis
      by (simp add: parseServiceStrategies_def split: prod.splits)
  next
    case False
    with p show ?thesis
      by (simp add: parseServiceStrategies_def split: prod.splits)
  qed
qed

lemma serviceStrategy_step_total:
  assumes "merge \<longrightarrow> OperationSampling (defaultStrategy st) \<noteq> None"
  shows "\<exists>r w. serviceStrategy_step c merge s (st, lg) =
           Some (st\<lparr>serviceStrategies := (serviceStrategies st)(Service s \<mapsto> r)\<rparr>, lg @ w)"
proof -
  obtain r0 w where p: "parseServiceStrategies c s = Some (r0, w)"
    using parseServiceStrategies_total by blast
  show ?thesis
  proof (cases "OperationSampling r0")
    case None
    with p show ?thesis
      by (auto simp: serviceStrategy_step_def Let_def split: option.splits)
  next
    case (Some opS)
    show ?thesis
    proof (cases merge)
      case True
      with assms obtain dOpS where "OperationSampling (defaultStrategy st) = Some dOpS"
        by auto
      with p Some True show ?thesis
        by (auto simp: serviceStrategy_step_def Let_def)
    next
      case False
      with p Some show ?thesis
        by (auto simp: serviceStrategy_step_def Let_def)
    qed
  qed
qed

lemma serviceStrategies_loop_append:
  "serviceStrategies_loop c merge (xs @ ys) acc =
     Option.bind (serviceStrategies_loop c merge xs acc) (serviceStrategies_loop c merge ys)"
  by (induction xs arbitrary: acc) (simp_all split: Option.bind_split)

lemma serviceStrategies_loop_total:
  assumes "merge \<longrightarrow> OperationSampling (defaultStrategy st) \<noteq> None"
  shows "\<exists>st' lg'. serviceStrategies_loop c merge ss (st, lg) = Some (st', lg') \<and>
           defaultStrategy st' = defaultStrategy st \<and>
           (\<forall>n. n \<notin> Service ` set ss \<longrightarrow> serviceStrategies st' n = serviceStrategies st n)"
  using assms
proof (induction ss arbitrary: st lg)
  case Nil
  show ?case by simp
next
  case (Cons s ss)
  from serviceStrategy_step_total [where merge = merge and st = st and c = c and s = s and lg = lg]
    Cons.prems
  obtain r w where step: "serviceStrategy_step c merge s (st, lg) =
      Some (st\<lparr>serviceStrategies := (serviceStrategies st)(Service s \<mapsto> r)\<rparr>, lg @ w)"
    by blast
  let ?st1 = "st\<lparr>serviceStrategies := (serviceStrategies st)(Service s \<mapsto> r)\<rparr>"
  have "merge \<longrightarrow> OperationSampling (defaultStrategy ?st1) \<noteq> None"
    using Cons.prems by simp
  from Cons.IH [OF this, where lg = "lg @ w"] obtain st' lg' where
    rest: "serviceStrategies_loop c merge ss (?st1, lg @ w) = Some (st', lg')"
      "defaultStrategy st' = defaultStrategy ?st1"
      "\<forall>n. n \<notin> Service ` set ss \<longrightarrow> serviceStrategies st' n = serviceStrategies ?st1 n"
    by blast
  from step rest show ?case by simp
qed

lemma parseStrategies_unfold:
  obtains D w st lg where
    "(case DefaultStrategy cfg of
        None \<Rightarrow> Some (defaultStrategyResponse c, [])
      | Some d \<Rightarrow> parseServiceStrategies c d) = Some (D, w)"
    "serviceStrategies_loop c
       (case OperationSampling D of None \<Rightarrow> False
        | Some dOpS \<Rightarrow> PerOperationStrategies dOpS \<noteq> [])
       (ServiceStrategies cfg)
       (\<lparr>defaultStrategy = D, serviceStrategies = Map.empty\<rparr>, w) = Some (st, lg)"
    "defaultStrategy st = D"
    "parseStrategies c (Some cfg) h = Some (Store st h, lg)"
proof -
  obtain D w where D: "(case DefaultStrategy cfg of
        None \<Rightarrow> Some (defaultStrategyResponse c, [])
      | Some d \<Rightarrow> parseServiceStrategies c d) = Some (D, w)"
  proof (cases "DefaultStrategy cfg")
    case None
    then show ?thesis using that by simp
  next
    case (Some d)
    with parseServiceStrategies_total [of c d] show ?thesis using that by auto
  qed
  let ?merge = "case OperationSampling D of None \<Rightarrow> False
        | Some dOpS \<Rightarrow> PerOperationStrategies dOpS \<noteq> []"
  let ?st0 = "\<lparr>defaultStrategy = D, serviceStrategies = Map.empty\<rparr>"
  have "?merge \<longrightarrow> OperationSampling (defaultStrategy ?st0) \<noteq> None"
    by (auto split: option.splits)
  from serviceStrategies_loop_total [OF this, where c = c and ss = "ServiceStrategies cfg" and lg = w]
  obtain st lg where loop:
    "serviceStrategies_loop c ?merge (ServiceStrategies cfg) (?st0, w) = Some (st, lg)"
    "defaultStrategy st = D"
    by auto
  have "parseStrategies c (Some cfg) h = Some (Store st h, lg)"
    using D loop(1)
    by (cases "DefaultStrategy cfg")
      (simp_all add: parseStrategies_def defaultStrategies_def Let_def)
  with D loop show ?thesis using that by blast
qed

lemma parseStrategies_total: "\<exists>h' lg. parseStrategies c strategies h = Some (h', lg)"
proof (cases strategies)
  case None
  then show ?thesis by (simp add: parseStrategies_def)
next
  case (Some cfg)
  then show ?thesis using parseStrategies_unfold [where cfg = cfg and c = c and h = h] by metis
qed

subsection \<open>The merge\<close>

lemma merge_names_fold:
  "fold (\<lambda>aOp m. m(opOperation aOp := True)) a m0 =
     (\<lambda>x. m0 x \<or> x \<in> opOperation ` set a)"
  by (induction a arbitrary: m0) (auto simp: fun_eq_iff)

lemma merge_append_fold:
  "fold (\<lambda>bOp a. if m (opOperation bOp) then a else a @ [bOp]) b a =
     a @ filter (\<lambda>bOp. \<not> m (opOperation bOp)) b"
  by (induction b arbitrary: a) auto

lemma merge_eq:
  "mergePerOperationSamplingStrategies a b =
     a @ filter (\<lambda>bOp. opOperation bOp \<notin> opOperation ` set a) b"
  by (simp add: mergePerOperationSamplingStrategies_def merge_names_fold merge_append_fold)

text \<open>
  C10. Merging with an empty default list returns the service's list unchanged, and
  merging the result with the same default list once more changes nothing.
\<close>

theorem merge_right_identity_and_idempotence:
  "mergePerOperationSamplingStrategies a [] = a \<and>
   mergePerOperationSamplingStrategies (mergePerOperationSamplingStrategies a b) b =
     mergePerOperationSamplingStrategies a b"
proof -
  let ?added = "filter (\<lambda>bOp. opOperation bOp \<notin> opOperation ` set a) b"
  have "filter (\<lambda>bOp. opOperation bOp \<notin> opOperation ` set (a @ ?added)) b = []"
    by (auto simp: filter_empty_conv)
  then show ?thesis by (simp add: merge_eq)
qed

lemmas resolve_simps =
  parseServiceStrategies_def parseStrategy_def samplerTypeProbabilistic_def
  samplerTypeRateLimiting_def operationStrategy_step_def parseOperationStrategy_def
  defaultStrategyResponse_def

text \<open>
  C4. The merge keeps the service's entries in their order and appends, in their order, the
  default's entries whose operation the service does not name; this is what a round of the
  loop stores for a service with operation strategies of its own when merging is enabled.
\<close>

theorem merge_precedence:
  "mergePerOperationSamplingStrategies a b =
     a @ filter (\<lambda>bOp. opOperation bOp \<notin> opOperation ` set a) b \<and>
   (parseServiceStrategies c s = Some (r, w) \<longrightarrow>
    OperationSampling r = Some opS \<longrightarrow>
    OperationSampling (defaultStrategy newStore) = Some dOpS \<longrightarrow>
    serviceStrategy_step c True s (newStore, lg) =
      Some (newStore\<lparr>serviceStrategies := (serviceStrategies newStore)
              (Service s \<mapsto> r\<lparr>OperationSampling := Some
                 (opS\<lparr>PerOperationStrategies :=
                    PerOperationStrategies opS @
                    filter (\<lambda>bOp. opOperation bOp \<notin>
                              opOperation ` set (PerOperationStrategies opS))
                      (PerOperationStrategies dOpS)\<rparr>)\<rparr>)\<rparr>,
            lg @ w))"
  by (simp add: merge_eq serviceStrategy_step_def Let_def)

theorem merge_precedence_witness:
  "parseServiceStrategies example_ext foo_with_operation =
     Some (\<lparr>StrategyType = PROBABILISTIC,
            ProbabilisticSampling = Some \<lparr>SamplingRate = 0.8\<rparr>,
            RateLimitingSampling = None,
            OperationSampling = Some
              \<lparr>DefaultSamplingProbability = 0.8,
               PerOperationStrategies =
                 [\<lparr>opOperation = ''A'',
                   opProbabilisticSampling = Some \<lparr>SamplingRate = 0.9\<rparr>\<rparr>]\<rparr>\<rparr>, []) \<and>
   serviceStrategy_step example_ext True foo_with_operation
       (\<lparr>defaultStrategy = resolved_default_with_operations,
         serviceStrategies = Map.empty\<rparr>, []) =
     Some (\<lparr>defaultStrategy = resolved_default_with_operations,
            serviceStrategies = [''foo'' \<mapsto>
              \<lparr>StrategyType = PROBABILISTIC,
               ProbabilisticSampling = Some \<lparr>SamplingRate = 0.8\<rparr>,
               RateLimitingSampling = None,
               OperationSampling = Some
                 \<lparr>DefaultSamplingProbability = 0.8,
                  PerOperationStrategies =
                    [\<lparr>opOperation = ''A'',
                      opProbabilisticSampling = Some \<lparr>SamplingRate = 0.9\<rparr>\<rparr>,
                     \<lparr>opOperation = ''B'',
                      opProbabilisticSampling = Some \<lparr>SamplingRate = 0.2\<rparr>\<rparr>]\<rparr>\<rparr>]\<rparr>, [])"
proof -
  let ?opS = "\<lparr>DefaultSamplingProbability = 0.8::real,
               PerOperationStrategies =
                 [\<lparr>opOperation = ''A'',
                   opProbabilisticSampling = Some \<lparr>SamplingRate = 0.9\<rparr>\<rparr>]\<rparr>"
  let ?r = "\<lparr>StrategyType = PROBABILISTIC,
            ProbabilisticSampling = Some \<lparr>SamplingRate = 0.8::real\<rparr>,
            RateLimitingSampling = None,
            OperationSampling = Some ?opS\<rparr>"
  have p: "parseServiceStrategies example_ext foo_with_operation = Some (?r, [])"
    by (simp add: foo_with_operation_def resolve_simps)
  have d: "OperationSampling (defaultStrategy
      \<lparr>defaultStrategy = resolved_default_with_operations,
       serviceStrategies = Map.empty\<rparr>) =
      Some \<lparr>DefaultSamplingProbability = 0.5,
         PerOperationStrategies =
           [\<lparr>opOperation = ''A'', opProbabilisticSampling = Some \<lparr>SamplingRate = 0.1\<rparr>\<rparr>,
            \<lparr>opOperation = ''B'', opProbabilisticSampling = Some \<lparr>SamplingRate = 0.2\<rparr>\<rparr>]\<rparr>"
    by (simp add: resolved_default_with_operations_def)
  have r: "OperationSampling ?r = Some ?opS"
    by simp
  from merge_precedence [THEN conjunct2, rule_format, OF p r d, where lg = "[]"] p
  show ?thesis
    by (simp add: foo_with_operation_def)
qed

text \<open>
  C8. A strategy whose type is neither of the two type strings resolves to the default
  strategy response, with one warning: as a base strategy, as an operation strategy and
  as the base of a service strategy. Resolving a whole document always returns.
\<close>

theorem unknown_type_falls_back:
  "(Type s \<noteq> samplerTypeProbabilistic \<and> Type s \<noteq> samplerTypeRateLimiting \<longrightarrow>
      parseStrategy c s =
        (defaultStrategyResponse c, [(WarnLevel, ''Failed to parse sampling strategy'')])) \<and>
   (Type ops \<noteq> samplerTypeProbabilistic \<and> Type ops \<noteq> samplerTypeRateLimiting \<longrightarrow>
      parseOperationStrategy c ops parent =
        (Some (defaultStrategyResponse c),
         [(WarnLevel, ''Failed to parse sampling strategy'')])) \<and>
   (Type svc \<noteq> samplerTypeProbabilistic \<and> Type svc \<noteq> samplerTypeRateLimiting \<longrightarrow>
      (\<exists>r lg. parseServiceStrategies c svc = Some (r, lg) \<and>
         r\<lparr>OperationSampling := None\<rparr> = defaultStrategyResponse c)) \<and>
   (\<exists>h' lg. parseStrategies c strategies h = Some (h', lg))"
proof -
  have "\<exists>r lg. parseServiceStrategies c svc = Some (r, lg) \<and>
         r\<lparr>OperationSampling := None\<rparr> = defaultStrategyResponse c"
    if "Type svc \<noteq> samplerTypeProbabilistic" "Type svc \<noteq> samplerTypeRateLimiting"
    using that
    by (simp add: parseServiceStrategies_def parseStrategy_def defaultStrategyResponse_def
        split: prod.splits)
  then show ?thesis
    using parseStrategies_total [of c strategies h]
    by (simp add: parseStrategy_def parseOperationStrategy_def defaultStrategyResponse_def)
qed

theorem unknown_type_falls_back_witness:
  "parseStrategy example_ext \<lparr>Type = ''const'', Param = 1\<rparr> =
     (\<lparr>StrategyType = PROBABILISTIC,
       ProbabilisticSampling = Some \<lparr>SamplingRate = 0.001\<rparr>,
       RateLimitingSampling = None,
       OperationSampling = None\<rparr>,
      [(WarnLevel, ''Failed to parse sampling strategy'')]) \<and>
   parseOperationStrategy example_ext \<lparr>Type = ''const'', Param = 1, Operation = ''op''\<rparr>
       \<lparr>DefaultSamplingProbability = 0.5, PerOperationStrategies = []\<rparr> =
     (Some \<lparr>StrategyType = PROBABILISTIC,
        ProbabilisticSampling = Some \<lparr>SamplingRate = 0.001\<rparr>,
        RateLimitingSampling = None,
        OperationSampling = None\<rparr>,
      [(WarnLevel, ''Failed to parse sampling strategy'')]) \<and>
   (\<exists>r lg. parseServiceStrategies example_ext
        \<lparr>Type = ''const'', Param = 1, Service = ''foo'', OperationStrategies = []\<rparr> =
          Some (r, lg) \<and>
      r\<lparr>OperationSampling := None\<rparr> =
        \<lparr>StrategyType = PROBABILISTIC,
         ProbabilisticSampling = Some \<lparr>SamplingRate = 0.001\<rparr>,
         RateLimitingSampling = None,
         OperationSampling = None\<rparr>)"
  using unknown_type_falls_back [where c = example_ext
      and s = "\<lparr>Type = ''const'', Param = 1\<rparr>"
      and ops = "\<lparr>Type = ''const'', Param = 1, Operation = ''op''\<rparr>"
      and svc = "\<lparr>Type = ''const'', Param = 1, Service = ''foo'', OperationStrategies = []\<rparr>"]
  by (simp add: samplerTypeProbabilistic_def samplerTypeRateLimiting_def
      defaultStrategyResponse_def example_ext_def)

subsection \<open>Operation strategies\<close>

lemma operationStrategy_fold_fst:
  "fst (fold (operationStrategy_step c) xs (opS, lg)) =
     opS\<lparr>PerOperationStrategies := PerOperationStrategies opS @
       map (\<lambda>x. \<lparr>opOperation = Operation x,
                 opProbabilisticSampling = ProbabilisticSampling (fst (parseStrategy c x))\<rparr>)
         (filter (\<lambda>x. StrategyType (fst (parseStrategy c x)) \<noteq> RATE_LIMITING) xs)\<rparr>"
  using operationStrategy_fold_entries [of c xs opS lg]
    operationStrategy_fold_default [of c xs "(opS, lg)"]
  by (cases "fst (fold (operationStrategy_step c) xs (opS, lg))") (cases opS, simp)

lemma parseStrategy_service_update [simp]:
  "parseStrategy c (s\<lparr>OperationStrategies := xs\<rparr>) = parseStrategy c s"
  by (simp add: parseStrategy_def)

lemma parseServiceStrategies_operations:
  assumes "OperationStrategies s \<noteq> []"
  shows "\<exists>p lg. parseServiceStrategies c s =
           Some (fst (parseStrategy c s)\<lparr>OperationSampling := Some
                   \<lparr>DefaultSamplingProbability = p,
                    PerOperationStrategies =
                      map (\<lambda>x. \<lparr>opOperation = Operation x,
                                opProbabilisticSampling =
                                  ProbabilisticSampling (fst (parseStrategy c x))\<rparr>)
                        (filter (\<lambda>x. StrategyType (fst (parseStrategy c x)) \<noteq> RATE_LIMITING)
                           (OperationStrategies s))\<rparr>\<rparr>, lg) \<and>
           (StrategyType (fst (parseStrategy c s)) = PROBABILISTIC \<longrightarrow>
              ProbabilisticSampling (fst (parseStrategy c s)) = Some \<lparr>SamplingRate = p\<rparr>) \<and>
           (StrategyType (fst (parseStrategy c s)) \<noteq> PROBABILISTIC \<longrightarrow>
              p = defaultSamplingProbability c)"
proof -
  obtain resp lg where p: "parseStrategy c s = (resp, lg)"
    by (cases "parseStrategy c s")
  let ?p = "if StrategyType resp = PROBABILISTIC
      then map_option SamplingRate (ProbabilisticSampling resp)
      else Some (defaultSamplingProbability c)"
  obtain q where q: "?p = Some q"
    using parseStrategy_probabilistic [of c s] p by (cases "StrategyType resp = PROBABILISTIC") auto
  obtain opS' lg' where f: "fold (operationStrategy_step c) (OperationStrategies s)
     (\<lparr>DefaultSamplingProbability = q, PerOperationStrategies = []\<rparr>, lg) = (opS', lg')"
    by (cases "fold (operationStrategy_step c) (OperationStrategies s)
     (\<lparr>DefaultSamplingProbability = q, PerOperationStrategies = []\<rparr>, lg)")
  from operationStrategy_fold_fst [of c "OperationStrategies s"
      "\<lparr>DefaultSamplingProbability = q, PerOperationStrategies = []\<rparr>" lg] f
  have opS': "opS' = \<lparr>DefaultSamplingProbability = q,
                    PerOperationStrategies =
                      map (\<lambda>x. \<lparr>opOperation = Operation x,
                                opProbabilisticSampling =
                                  ProbabilisticSampling (fst (parseStrategy c x))\<rparr>)
                        (filter (\<lambda>x. StrategyType (fst (parseStrategy c x)) \<noteq> RATE_LIMITING)
                           (OperationStrategies s))\<rparr>"
    by simp
  have "parseServiceStrategies c s = Some (resp\<lparr>OperationSampling := Some opS'\<rparr>, lg')"
    using assms p q f by (simp add: parseServiceStrategies_def split: if_splits)
  moreover have "(StrategyType resp = PROBABILISTIC \<longrightarrow>
              ProbabilisticSampling resp = Some \<lparr>SamplingRate = q\<rparr>) \<and>
           (StrategyType resp \<noteq> PROBABILISTIC \<longrightarrow> q = defaultSamplingProbability c)"
    using q by (cases "ProbabilisticSampling resp") (auto split: if_splits)
  ultimately show ?thesis using p opS' by auto
qed

lemma serviceStrategy_step_store_cong:
  assumes "Service s = Service s'"
    and "parseServiceStrategies c s = Some (r, w)"
    and "parseServiceStrategies c s' = Some (r, w')"
  shows "map_option fst (serviceStrategy_step c merge s (st, lg)) =
         map_option fst (serviceStrategy_step c merge s' (st, lg'))"
  using assms
  by (auto simp: serviceStrategy_step_def Let_def split: option.splits)

lemma serviceStrategies_loop_store:
  "map_option fst (serviceStrategies_loop c merge ss (st, lg)) =
   map_option fst (serviceStrategies_loop c merge ss (st, lg'))"
proof (induction ss arbitrary: st lg lg')
  case Nil
  show ?case by simp
next
  case (Cons s ss)
  obtain r w where p: "parseServiceStrategies c s = Some (r, w)"
    using parseServiceStrategies_total by blast
  from serviceStrategy_step_store_cong [OF refl p p, of merge st lg lg']
  show ?case
  proof (cases "serviceStrategy_step c merge s (st, lg)")
    case None
    with \<open>map_option fst (serviceStrategy_step c merge s (st, lg)) =
         map_option fst (serviceStrategy_step c merge s (st, lg'))\<close>
    show ?thesis by simp
  next
    case (Some a)
    with \<open>map_option fst (serviceStrategy_step c merge s (st, lg)) =
         map_option fst (serviceStrategy_step c merge s (st, lg'))\<close>
    obtain b where b: "serviceStrategy_step c merge s (st, lg') = Some b" "fst b = fst a"
      by (cases "serviceStrategy_step c merge s (st, lg')") auto
    from Cons.IH [of "fst a" "snd a" "snd b"] Some b show ?thesis
      by (cases a, cases b) simp
  qed
qed

lemma OperationSampling_update_same:
  "OperationSampling r = Some opS \<Longrightarrow> r\<lparr>OperationSampling := Some opS\<rparr> = r"
  by (cases r) simp

lemma serviceStrategy_step_with_operations:
  assumes "parseServiceStrategies c s = Some (r, w)"
    and "OperationSampling r = Some opS"
    and "merge \<longleftrightarrow>
      (case OperationSampling (defaultStrategy st) of
         None \<Rightarrow> False
       | Some dOpS \<Rightarrow> PerOperationStrategies dOpS \<noteq> [])"
  shows "serviceStrategy_step c merge s (st, lg) =
     Some (st\<lparr>serviceStrategies := (serviceStrategies st)(Service s \<mapsto>
              r\<lparr>OperationSampling := Some (opS\<lparr>PerOperationStrategies :=
                 PerOperationStrategies opS @
                 filter (\<lambda>e. opOperation e \<notin> opOperation ` set (PerOperationStrategies opS))
                   (case OperationSampling (defaultStrategy st) of
                      None \<Rightarrow> []
                    | Some dOpS \<Rightarrow> PerOperationStrategies dOpS)\<rparr>)\<rparr>)\<rparr>,
           lg @ w)"
proof (cases "OperationSampling (defaultStrategy st)")
  case None
  with assms show ?thesis
    by (simp add: serviceStrategy_step_def Let_def OperationSampling_update_same)
next
  case (Some dOpS)
  show ?thesis
  proof (cases "PerOperationStrategies dOpS = []")
    case True
    with Some assms show ?thesis
      by (simp add: serviceStrategy_step_def Let_def OperationSampling_update_same)
  next
    case False
    with Some assms show ?thesis
      by (simp add: serviceStrategy_step_def Let_def merge_eq)
  qed
qed

lemma serviceStrategies_loop_replace:
  assumes "Service s1 = Service s2"
    and "parseServiceStrategies c s1 = Some (r, w1)"
    and "parseServiceStrategies c s2 = Some (r, w2)"
  shows "map_option fst (serviceStrategies_loop c merge (pre @ s1 # post) acc) =
         map_option fst (serviceStrategies_loop c merge (pre @ s2 # post) acc)"
proof (cases "serviceStrategies_loop c merge pre acc")
  case None
  then show ?thesis by (simp add: serviceStrategies_loop_append)
next
  case (Some acc1)
  obtain st1 lg1 where acc1: "acc1 = (st1, lg1)" by (cases acc1)
  note step = serviceStrategy_step_store_cong [OF assms, of merge st1 lg1 lg1]
  show ?thesis
  proof (cases "serviceStrategy_step c merge s1 (st1, lg1)")
    case None
    with step have "serviceStrategy_step c merge s2 (st1, lg1) = None" by simp
    with None Some acc1 show ?thesis by (simp add: serviceStrategies_loop_append)
  next
    case a: (Some a)
    with step obtain b where b: "serviceStrategy_step c merge s2 (st1, lg1) = Some b"
      "fst b = fst a"
      by (cases "serviceStrategy_step c merge s2 (st1, lg1)") auto
    from serviceStrategies_loop_store [of c merge post "fst a" "snd a" "snd b"] b(2)
    have "map_option fst (serviceStrategies_loop c merge post a) =
        map_option fst (serviceStrategies_loop c merge post b)"
      by (cases a, cases b) simp
    with Some acc1 a b(1) show ?thesis by (simp add: serviceStrategies_loop_append)
  qed
qed

lemma parseStrategies_replace:
  assumes "Service s1 = Service s2"
    and "parseServiceStrategies c s1 = Some (r, w1)"
    and "parseServiceStrategies c s2 = Some (r, w2)"
    and "ServiceStrategies cfg = pre @ s1 # post"
  shows "map_option fst (parseStrategies c (Some cfg) h) =
         map_option fst (parseStrategies c
           (Some (cfg\<lparr>ServiceStrategies := pre @ s2 # post\<rparr>)) h)"
proof -
  obtain D w where D: "(case DefaultStrategy cfg of
        None \<Rightarrow> Some (defaultStrategyResponse c, [])
      | Some d \<Rightarrow> parseServiceStrategies c d) = Some (D, w)"
  proof (cases "DefaultStrategy cfg")
    case None
    then show ?thesis using that by simp
  next
    case (Some d)
    with parseServiceStrategies_total [of c d] show ?thesis using that by auto
  qed
  let ?merge = "case OperationSampling D of None \<Rightarrow> False
        | Some dOpS \<Rightarrow> PerOperationStrategies dOpS \<noteq> []"
  let ?init = "(\<lparr>defaultStrategy = D, serviceStrategies = Map.empty\<rparr>, w)"
  have 1: "parseStrategies c (Some cfg) h =
      map_option (\<lambda>(st, lg). (Store st h, lg))
        (serviceStrategies_loop c ?merge (pre @ s1 # post) ?init)"
    using D assms(4)
    by (cases "DefaultStrategy cfg";
        cases "serviceStrategies_loop c ?merge (pre @ s1 # post) ?init")
      (auto simp: parseStrategies_def defaultStrategies_def Let_def)
  have 2: "parseStrategies c (Some (cfg\<lparr>ServiceStrategies := pre @ s2 # post\<rparr>)) h =
      map_option (\<lambda>(st, lg). (Store st h, lg))
        (serviceStrategies_loop c ?merge (pre @ s2 # post) ?init)"
    using D
    by (cases "DefaultStrategy cfg";
        cases "serviceStrategies_loop c ?merge (pre @ s2 # post) ?init")
      (auto simp: parseStrategies_def defaultStrategies_def Let_def)
  from serviceStrategies_loop_replace [OF assms(1-3), of ?merge pre post ?init]
  show ?thesis
    unfolding 1 2
    by (cases "serviceStrategies_loop c ?merge (pre @ s1 # post) ?init";
        cases "serviceStrategies_loop c ?merge (pre @ s2 # post) ?init") auto
qed

text \<open>
  C7, as amended. An operation strategy that resolves to rate limiting yields no entry:
  parsing it returns no strategy and writes one warning, and the round of the loop leaves
  the table as it was. The service resolves to the table built from its other operation
  strategies, and the snapshot holds that table followed by the default's entries for the
  operations it does not name. When another operation strategy is left, the document
  resolves to the same store as the document without the dropped one: only the log differs.
\<close>

theorem rate_limiting_operation_dropped:
  assumes "StrategyType (fst (parseStrategy c ops)) = RATE_LIMITING"
  shows "parseOperationStrategy c ops parent =
           (None, [(WarnLevel,
              operation_warning c (Operation ops) (DefaultSamplingProbability parent))]) \<and>
         operationStrategy_step c ops (opS, lg) =
           (opS, lg @ [(WarnLevel,
              operation_warning c (Operation ops) (DefaultSamplingProbability opS))]) \<and>
         fst (fold (operationStrategy_step c) (xs @ ops # ys) (opS, lg)) =
           fst (fold (operationStrategy_step c) (xs @ ys) (opS, lg)) \<and>
         (\<exists>r w. parseServiceStrategies c (s\<lparr>OperationStrategies := xs @ ops # ys\<rparr>) =
                  Some (r, w) \<and>
            map_option PerOperationStrategies (OperationSampling r) = Some
              (map (\<lambda>x. \<lparr>opOperation = Operation x,
                        opProbabilisticSampling =
                          ProbabilisticSampling (fst (parseStrategy c x))\<rparr>)
                 (filter (\<lambda>x. StrategyType (fst (parseStrategy c x)) \<noteq> RATE_LIMITING)
                    (xs @ ys))) \<and>
            (xs @ ys \<noteq> [] \<longrightarrow>
               (\<exists>w'. parseServiceStrategies c (s\<lparr>OperationStrategies := xs @ ys\<rparr>) =
                  Some (r, w')))) \<and>
         (ServiceStrategies cfg = pre @ s\<lparr>OperationStrategies := xs @ ops # ys\<rparr> # post \<longrightarrow>
            (Service s \<notin> Service ` set post \<and>
             parseStrategies c (Some cfg) h = Some (h', l) \<longrightarrow>
               (\<exists>r opS'.
                  serviceStrategies (snd (storedStrategies h')) (Service s) = Some r \<and>
                  OperationSampling r = Some opS' \<and>
                  PerOperationStrategies opS' =
                    (map (\<lambda>x. \<lparr>opOperation = Operation x,
                           opProbabilisticSampling =
                             ProbabilisticSampling (fst (parseStrategy c x))\<rparr>)
                   (filter (\<lambda>x. StrategyType (fst (parseStrategy c x)) \<noteq> RATE_LIMITING)
                      (xs @ ys))) @
                    filter (\<lambda>e. opOperation e \<notin> opOperation ` set
                      (map (\<lambda>x. \<lparr>opOperation = Operation x,
                           opProbabilisticSampling =
                             ProbabilisticSampling (fst (parseStrategy c x))\<rparr>)
                   (filter (\<lambda>x. StrategyType (fst (parseStrategy c x)) \<noteq> RATE_LIMITING)
                      (xs @ ys))))
                      (case OperationSampling (defaultStrategy (snd (storedStrategies h'))) of
                         None \<Rightarrow> []
                       | Some dOpS \<Rightarrow> PerOperationStrategies dOpS))) \<and>
            (xs @ ys \<noteq> [] \<longrightarrow>
               map_option fst (parseStrategies c (Some cfg) h) =
               map_option fst (parseStrategies c
                 (Some (cfg\<lparr>ServiceStrategies :=
                    pre @ s\<lparr>OperationStrategies := xs @ ys\<rparr> # post\<rparr>)) h)))"
proof -
  obtain resp where parse: "parseStrategy c ops = (resp, [])"
    and resp: "StrategyType resp = RATE_LIMITING"
    using parseStrategy_rate_limiting_log [OF assms] assms
    by (cases "parseStrategy c ops") simp
  have 1: "parseOperationStrategy c ops parent =
           (None, [(WarnLevel,
              operation_warning c (Operation ops) (DefaultSamplingProbability parent))])"
    for parent
    using parse resp by (simp add: parseOperationStrategy_def)
  have 2: "operationStrategy_step c ops (opS, lg) =
           (opS, lg @ [(WarnLevel,
              operation_warning c (Operation ops) (DefaultSamplingProbability opS))])"
    by (simp add: operationStrategy_step_def 1)
  have 3: "fst (fold (operationStrategy_step c) (xs @ ops # ys) (opS, lg)) =
           fst (fold (operationStrategy_step c) (xs @ ys) (opS, lg))"
    using assms by (simp only: operationStrategy_fold_fst) simp
  let ?s = "s\<lparr>OperationStrategies := xs @ ops # ys\<rparr>"
  let ?s' = "s\<lparr>OperationStrategies := xs @ ys\<rparr>"
  have "OperationStrategies ?s \<noteq> []" by simp
  from parseServiceStrategies_operations [OF this, of c]
  obtain p w where r: "parseServiceStrategies c ?s =
           Some (fst (parseStrategy c s)\<lparr>OperationSampling := Some
                   \<lparr>DefaultSamplingProbability = p,
                    PerOperationStrategies =
                      map (\<lambda>x. \<lparr>opOperation = Operation x,
                                opProbabilisticSampling =
                                  ProbabilisticSampling (fst (parseStrategy c x))\<rparr>)
                        (filter (\<lambda>x. StrategyType (fst (parseStrategy c x)) \<noteq> RATE_LIMITING)
                           (xs @ ys))\<rparr>\<rparr>, w)"
    and p: "StrategyType (fst (parseStrategy c s)) = PROBABILISTIC \<longrightarrow>
              ProbabilisticSampling (fst (parseStrategy c s)) = Some \<lparr>SamplingRate = p\<rparr>"
      "StrategyType (fst (parseStrategy c s)) \<noteq> PROBABILISTIC \<longrightarrow>
              p = defaultSamplingProbability c"
    using assms by auto
  have "\<exists>w'. parseServiceStrategies c ?s' =
           Some (fst (parseStrategy c s)\<lparr>OperationSampling := Some
                   \<lparr>DefaultSamplingProbability = p,
                    PerOperationStrategies =
                      map (\<lambda>x. \<lparr>opOperation = Operation x,
                                opProbabilisticSampling =
                                  ProbabilisticSampling (fst (parseStrategy c x))\<rparr>)
                        (filter (\<lambda>x. StrategyType (fst (parseStrategy c x)) \<noteq> RATE_LIMITING)
                           (xs @ ys))\<rparr>\<rparr>, w')"
    if "xs @ ys \<noteq> []"
  proof -
    from that have "OperationStrategies ?s' \<noteq> []" by simp
    from parseServiceStrategies_operations [OF this, of c] p
    show ?thesis by (cases "StrategyType (fst (parseStrategy c s)) = PROBABILISTIC") auto
  qed
  with r have 4: "\<exists>r w. parseServiceStrategies c ?s = Some (r, w) \<and>
            map_option PerOperationStrategies (OperationSampling r) = Some
              (map (\<lambda>x. \<lparr>opOperation = Operation x,
                        opProbabilisticSampling =
                          ProbabilisticSampling (fst (parseStrategy c x))\<rparr>)
                 (filter (\<lambda>x. StrategyType (fst (parseStrategy c x)) \<noteq> RATE_LIMITING)
                    (xs @ ys))) \<and>
            (xs @ ys \<noteq> [] \<longrightarrow>
               (\<exists>w'. parseServiceStrategies c ?s' = Some (r, w')))"
    by auto
  define own where "own =
    map (\<lambda>x. \<lparr>opOperation = Operation x,
              opProbabilisticSampling = ProbabilisticSampling (fst (parseStrategy c x))\<rparr>)
      (filter (\<lambda>x. StrategyType (fst (parseStrategy c x)) \<noteq> RATE_LIMITING) (xs @ ys))"
  have parsed: "parseServiceStrategies c ?s =
      Some (fst (parseStrategy c s)\<lparr>OperationSampling := Some
              \<lparr>DefaultSamplingProbability = p, PerOperationStrategies = own\<rparr>\<rparr>, w)"
    using r by (simp add: own_def)
  have 5: "\<exists>r opS'.
      serviceStrategies (snd (storedStrategies h')) (Service s) = Some r \<and>
      OperationSampling r = Some opS' \<and>
      PerOperationStrategies opS' =
        own @ filter (\<lambda>e. opOperation e \<notin> opOperation ` set own)
          (case OperationSampling (defaultStrategy (snd (storedStrategies h'))) of
             None \<Rightarrow> []
           | Some dOpS \<Rightarrow> PerOperationStrategies dOpS)"
    if cfg: "ServiceStrategies cfg = pre @ ?s # post"
      and last: "Service s \<notin> Service ` set post"
      and res: "parseStrategies c (Some cfg) h = Some (h', l)"
  proof -
    obtain D w0 st lg0 where
      loop: "serviceStrategies_loop c
         (case OperationSampling D of None \<Rightarrow> False
          | Some dOpS \<Rightarrow> PerOperationStrategies dOpS \<noteq> [])
         (ServiceStrategies cfg)
         (\<lparr>defaultStrategy = D, serviceStrategies = Map.empty\<rparr>, w0) = Some (st, lg0)"
      and D: "defaultStrategy st = D"
      and res': "parseStrategies c (Some cfg) h = Some (Store st h, lg0)"
      by (rule parseStrategies_unfold [where cfg = cfg and c = c and h = h])
    from res res' have h': "snd (storedStrategies h') = st"
      by (auto simp: Store_def)
    let ?merge = "case OperationSampling D of None \<Rightarrow> False
          | Some dOpS \<Rightarrow> PerOperationStrategies dOpS \<noteq> []"
    let ?init = "\<lparr>defaultStrategy = D, serviceStrategies = Map.empty\<rparr>"
    have guard: "?merge \<longrightarrow> OperationSampling (defaultStrategy ?init) \<noteq> None"
      by (auto split: option.splits)
    from serviceStrategies_loop_total [OF guard, where c = c and ss = pre and lg = w0]
    obtain st1 lg1 where
      before: "serviceStrategies_loop c ?merge pre (?init, w0) = Some (st1, lg1)"
      and D1: "defaultStrategy st1 = D"
      by auto
    define table where "table =
      \<lparr>DefaultSamplingProbability = p,
       PerOperationStrategies =
         own @ filter (\<lambda>e. opOperation e \<notin> opOperation ` set own)
           (case OperationSampling D of
              None \<Rightarrow> []
            | Some dOpS \<Rightarrow> PerOperationStrategies dOpS)\<rparr>"
    define final where "final = fst (parseStrategy c s)\<lparr>OperationSampling := Some table\<rparr>"
    let ?mid = "st1\<lparr>serviceStrategies := (serviceStrategies st1)(Service s \<mapsto> final)\<rparr>"
    have flag: "?merge \<longleftrightarrow>
      (case OperationSampling (defaultStrategy st1) of
         None \<Rightarrow> False
       | Some dOpS \<Rightarrow> PerOperationStrategies dOpS \<noteq> [])"
      by (simp add: D1)
    from serviceStrategy_step_with_operations [OF parsed _ flag, of _ lg1]
    have step: "serviceStrategy_step c ?merge ?s (st1, lg1) = Some (?mid, lg1 @ w)"
      by (simp add: D1 final_def table_def)
    have guard': "?merge \<longrightarrow> OperationSampling (defaultStrategy ?mid) \<noteq> None"
      using D1 by (auto split: option.splits)
    from serviceStrategies_loop_total [OF guard', where c = c and ss = post
        and lg = "lg1 @ w"]
    obtain st3 lg3 where
      after: "serviceStrategies_loop c ?merge post (?mid, lg1 @ w) = Some (st3, lg3)"
      and keep: "\<forall>n. n \<notin> Service ` set post \<longrightarrow>
          serviceStrategies st3 n = serviceStrategies ?mid n"
      by auto
    have "serviceStrategies_loop c ?merge (pre @ ?s # post) (?init, w0) = Some (st3, lg3)"
      using before step after by (simp add: serviceStrategies_loop_append)
    with loop cfg have "st = st3" by simp
    with keep last have entry: "serviceStrategies st (Service s) = Some final"
      by simp
    show ?thesis
      apply (rule exI [of _ final], rule exI [of _ table])
      using entry D by (simp add: h' final_def table_def)
  qed
  have 6: "map_option fst (parseStrategies c (Some cfg) h) =
      map_option fst (parseStrategies c
        (Some (cfg\<lparr>ServiceStrategies := pre @ ?s' # post\<rparr>)) h)"
    if cfg: "ServiceStrategies cfg = pre @ ?s # post" and more: "xs @ ys \<noteq> []"
  proof -
    from 4 more obtain r' w1 w2 where
      "parseServiceStrategies c ?s = Some (r', w1)"
      "parseServiceStrategies c ?s' = Some (r', w2)"
      by auto
    from parseStrategies_replace [OF _ this cfg, of h] show ?thesis by simp
  qed
  from 1 2 3 4 5 6 show ?thesis unfolding own_def by blast
qed

theorem rate_limiting_operation_dropped_witness:
  "StrategyType (fst (parseStrategy example_ext rate_limited_operation)) = RATE_LIMITING \<and>
   operationStrategy_step example_ext rate_limited_operation
     (\<lparr>DefaultSamplingProbability = 0.8, PerOperationStrategies = []\<rparr>, []) =
     (\<lparr>DefaultSamplingProbability = 0.8, PerOperationStrategies = []\<rparr>,
      [(WarnLevel, operation_warning example_ext ''C'' 0.8)]) \<and>
   (\<exists>r w w'.
      parseServiceStrategies example_ext
        (foo_with_operation\<lparr>OperationStrategies :=
           OperationStrategies foo_with_operation @ [rate_limited_operation]\<rparr>) = Some (r, w) \<and>
      parseServiceStrategies example_ext foo_with_operation = Some (r, w')) \<and>
   parseStrategies example_ext (Some dropped_strategies) bootstrap_store =
     Some (merged_store, [(WarnLevel, operation_warning example_ext ''C'' 0.8)]) \<and>
   map_option fst (parseStrategies example_ext
      (Some (dropped_strategies\<lparr>ServiceStrategies := [foo_with_operation]\<rparr>))
      bootstrap_store) = Some merged_store"
proof -
  have h: "StrategyType (fst (parseStrategy example_ext rate_limited_operation)) =
      RATE_LIMITING"
    by (simp add: rate_limited_operation_def resolve_simps)
  have ne: "OperationStrategies foo_with_operation @ [] \<noteq> []"
    by (simp add: foo_with_operation_def)
  have same: "foo_with_operation\<lparr>OperationStrategies :=
      OperationStrategies foo_with_operation @ []\<rparr> = foo_with_operation"
    by simp
  have cfg: "ServiceStrategies dropped_strategies =
      [] @ foo_with_operation\<lparr>OperationStrategies :=
        OperationStrategies foo_with_operation @ rate_limited_operation # []\<rparr> # []"
    by (simp add: dropped_strategies_def)
  have resolved: "parseStrategies example_ext (Some dropped_strategies) bootstrap_store =
     Some (merged_store, [(WarnLevel, operation_warning example_ext ''C'' 0.8)])"
    by (simp add: parseStrategies_def dropped_strategies_def bootstrap_store_def
        merged_store_def default_with_operations_def foo_with_operation_def
        rate_limited_operation_def resolved_default_with_operations_def
        defaultStrategies_def serviceStrategy_step_def Store_def
        mergePerOperationSamplingStrategies_def resolve_simps)
  note dropped = rate_limiting_operation_dropped [OF h,
      where xs = "OperationStrategies foo_with_operation" and ys = "[]"
        and s = foo_with_operation
        and opS = "\<lparr>DefaultSamplingProbability = 0.8, PerOperationStrategies = []\<rparr>"
        and lg = "[]" and cfg = dropped_strategies and pre = "[]" and post = "[]"
        and h = bootstrap_store]
  from dropped have step: "operationStrategy_step example_ext rate_limited_operation
     (\<lparr>DefaultSamplingProbability = 0.8, PerOperationStrategies = []\<rparr>, []) =
     (\<lparr>DefaultSamplingProbability = 0.8, PerOperationStrategies = []\<rparr>,
      [(WarnLevel, operation_warning example_ext ''C'' 0.8)])"
    by (simp add: rate_limited_operation_def)
  from dropped ne have parsed: "\<exists>r w w'.
      parseServiceStrategies example_ext
        (foo_with_operation\<lparr>OperationStrategies :=
           OperationStrategies foo_with_operation @ [rate_limited_operation]\<rparr>) = Some (r, w) \<and>
      parseServiceStrategies example_ext foo_with_operation = Some (r, w')"
    unfolding same by blast
  from dropped cfg ne have "map_option fst
      (parseStrategies example_ext (Some dropped_strategies) bootstrap_store) =
    map_option fst (parseStrategies example_ext
      (Some (dropped_strategies\<lparr>ServiceStrategies :=
         [] @ foo_with_operation\<lparr>OperationStrategies :=
           OperationStrategies foo_with_operation @ []\<rparr> # []\<rparr>))
      bootstrap_store)"
    by blast
  with resolved have without: "map_option fst (parseStrategies example_ext
      (Some (dropped_strategies\<lparr>ServiceStrategies := [foo_with_operation]\<rparr>))
      bootstrap_store) = Some merged_store"
    by simp
  from h step parsed resolved without show ?thesis by blast
qed

text \<open>
  C7, as stated, fails: a rate-limiting service whose only operation strategy is the
  dropped one gets a per-operation table, filled with the default's entries (one of them
  for the very operation of the dropped strategy); without it the service has no table.
\<close>

theorem sole_rate_limiting_operation_counterexample:
  "parseStrategies example_ext (Some sole_dropped_strategies) bootstrap_store =
     Some (\<lparr>storedStrategies =
              (1, \<lparr>defaultStrategy = resolved_default_with_operations,
                   serviceStrategies = [''baz'' \<mapsto>
                     \<lparr>StrategyType = RATE_LIMITING,
                      ProbabilisticSampling = None,
                      RateLimitingSampling = Some \<lparr>MaxTracesPerSecond = 10\<rparr>,
                      OperationSampling = Some
                        \<lparr>DefaultSamplingProbability = 0.001,
                         PerOperationStrategies =
                           [\<lparr>opOperation = ''A'',
                             opProbabilisticSampling = Some \<lparr>SamplingRate = 0.1\<rparr>\<rparr>,
                            \<lparr>opOperation = ''B'',
                             opProbabilisticSampling = Some \<lparr>SamplingRate = 0.2\<rparr>\<rparr>]\<rparr>\<rparr>]\<rparr>),
            allocated = 2\<rparr>,
           [(WarnLevel, operation_warning example_ext ''A'' 0.001)]) \<and>
   parseStrategies example_ext (Some without_dropped_strategies) bootstrap_store =
     Some (\<lparr>storedStrategies =
              (1, \<lparr>defaultStrategy = resolved_default_with_operations,
                   serviceStrategies = [''baz'' \<mapsto>
                     \<lparr>StrategyType = RATE_LIMITING,
                      ProbabilisticSampling = None,
                      RateLimitingSampling = Some \<lparr>MaxTracesPerSecond = 10\<rparr>,
                      OperationSampling = None\<rparr>]\<rparr>),
            allocated = 2\<rparr>, [])"
  by (simp add: parseStrategies_def sole_dropped_strategies_def without_dropped_strategies_def
      bootstrap_store_def default_with_operations_def baz_rate_limited_def
      resolved_default_with_operations_def defaultStrategies_def serviceStrategy_step_def
      Store_def mergePerOperationSamplingStrategies_def truncate_int32_def example_ext_def
      resolve_simps)

subsection \<open>Lookups\<close>

text \<open>
  C3. A lookup returns the stored strategy of the service when the current snapshot has
  one, and the snapshot's default strategy otherwise; the error is nil in both cases.
\<close>

theorem GetSamplingStrategy_lookup:
  "(serviceStrategies (snd (storedStrategies h)) serviceName = Some strategy \<longrightarrow>
      GetSamplingStrategy h serviceName = ((strategy, None), [])) \<and>
   (serviceStrategies (snd (storedStrategies h)) serviceName = None \<longrightarrow>
      GetSamplingStrategy h serviceName =
        ((defaultStrategy (snd (storedStrategies h)), None),
         [(DebugLevel, ''sampling strategy not found, using default'')])) \<and>
   snd (fst (GetSamplingStrategy h serviceName)) = None"
  by (simp add: GetSamplingStrategy_def Let_def split: option.splits)

theorem GetSamplingStrategy_lookup_witness:
  "fst (GetSamplingStrategy foo_store ''foo'') =
     (\<lparr>StrategyType = PROBABILISTIC,
       ProbabilisticSampling = Some \<lparr>SamplingRate = 0.8\<rparr>,
       RateLimitingSampling = None,
       OperationSampling = None\<rparr>, None) \<and>
   fst (GetSamplingStrategy foo_store ''bar'') =
     (\<lparr>StrategyType = PROBABILISTIC,
       ProbabilisticSampling = Some \<lparr>SamplingRate = 0.001\<rparr>,
       RateLimitingSampling = None,
       OperationSampling = None\<rparr>, None)"
  using GetSamplingStrategy_lookup [where h = foo_store and serviceName = "''foo''"
      and strategy = "\<lparr>StrategyType = PROBABILISTIC,
       ProbabilisticSampling = Some \<lparr>SamplingRate = 0.8\<rparr>,
       RateLimitingSampling = None,
       OperationSampling = None\<rparr>"]
    GetSamplingStrategy_lookup [where h = foo_store and serviceName = "''bar''"]
  by (simp add: foo_store_def defaultStrategyResponse_def example_ext_def)

subsection \<open>Services without operation strategies\<close>

lemma parseStrategy_probabilistic_iff:
  "StrategyType (fst (parseStrategy c s)) = PROBABILISTIC \<longleftrightarrow>
     ProbabilisticSampling (fst (parseStrategy c s)) \<noteq> None"
  by (simp add: parseStrategy_def defaultStrategyResponse_def)

lemma OperationSampling_update_None:
  "OperationSampling x = None \<Longrightarrow> x\<lparr>OperationSampling := None\<rparr> = x"
  by (cases x) simp

lemma parseServiceStrategies_no_operations:
  "OperationStrategies s = [] \<Longrightarrow> parseServiceStrategies c s = Some (parseStrategy c s)"
  by (simp add: parseServiceStrategies_def split: prod.splits)

lemma serviceStrategy_step_no_operations:
  assumes "OperationStrategies s = []"
  shows "serviceStrategy_step c merge s (st, lg) =
     Some (st\<lparr>serviceStrategies := (serviceStrategies st)(Service s \<mapsto>
              (case (OperationSampling (defaultStrategy st),
                     ProbabilisticSampling (fst (parseStrategy c s))) of
                 (Some dOpS, Some p) \<Rightarrow>
                   (fst (parseStrategy c s))\<lparr>OperationSampling :=
                      Some (dOpS\<lparr>DefaultSamplingProbability := SamplingRate p\<rparr>)\<rparr>
               | _ \<Rightarrow> fst (parseStrategy c s)))\<rparr>,
           lg @ snd (parseStrategy c s))"
  using parseStrategy_no_OperationSampling [of c s]
  by (cases "parseStrategy c s")
    (simp add: serviceStrategy_step_def parseServiceStrategies_no_operations [OF assms] Let_def
      split: option.splits)

text \<open>
  C6. Take a service strategy without operation strategies, the last one of its service
  name in the document. Its stored response is its base strategy, and: when the resolved
  default has a per-operation table and the response is probabilistic, the response
  carries that table with the default probability set to the service's sampling rate;
  when the default has no table, or the response is not probabilistic, it carries none.
\<close>

theorem service_without_operations_inherits:
  assumes "ServiceStrategies cfg = pre @ s # post"
    and "Service s \<notin> Service ` set post"
    and "OperationStrategies s = []"
  shows "\<exists>h' lg r. parseStrategies c (Some cfg) h = Some (h', lg) \<and>
     serviceStrategies (snd (storedStrategies h')) (Service s) = Some r \<and>
     r\<lparr>OperationSampling := None\<rparr> = fst (parseStrategy c s) \<and>
     (\<forall>dOpS. OperationSampling (defaultStrategy (snd (storedStrategies h'))) = Some dOpS \<and>
        StrategyType r = PROBABILISTIC \<longrightarrow>
        (\<exists>p. ProbabilisticSampling r = Some p \<and>
           OperationSampling r =
             Some (dOpS\<lparr>DefaultSamplingProbability := SamplingRate p\<rparr>))) \<and>
     (OperationSampling (defaultStrategy (snd (storedStrategies h'))) = None \<or>
        StrategyType r \<noteq> PROBABILISTIC \<longrightarrow> OperationSampling r = None)"
proof -
  obtain D w st lg where
    loop: "serviceStrategies_loop c
       (case OperationSampling D of None \<Rightarrow> False
        | Some dOpS \<Rightarrow> PerOperationStrategies dOpS \<noteq> [])
       (ServiceStrategies cfg)
       (\<lparr>defaultStrategy = D, serviceStrategies = Map.empty\<rparr>, w) = Some (st, lg)"
    and D: "defaultStrategy st = D"
    and res: "parseStrategies c (Some cfg) h = Some (Store st h, lg)"
    by (rule parseStrategies_unfold [where cfg = cfg and c = c and h = h])
  let ?merge = "case OperationSampling D of None \<Rightarrow> False
        | Some dOpS \<Rightarrow> PerOperationStrategies dOpS \<noteq> []"
  let ?init = "\<lparr>defaultStrategy = D, serviceStrategies = Map.empty\<rparr>"
  let ?base = "fst (parseStrategy c s)"
  have guard0: "?merge \<longrightarrow> OperationSampling (defaultStrategy ?init) \<noteq> None"
    by (auto split: option.splits)
  from serviceStrategies_loop_total [OF guard0, where c = c and ss = pre and lg = w]
  obtain st1 lg1 where
    pre: "serviceStrategies_loop c ?merge pre (?init, w) = Some (st1, lg1)"
    and D1: "defaultStrategy st1 = D"
    by auto
  define final where "final =
    (case (OperationSampling D, ProbabilisticSampling ?base) of
       (Some dOpS, Some p) \<Rightarrow>
         ?base\<lparr>OperationSampling :=
            Some (dOpS\<lparr>DefaultSamplingProbability := SamplingRate p\<rparr>)\<rparr>
     | _ \<Rightarrow> ?base)"
  let ?mid = "st1\<lparr>serviceStrategies := (serviceStrategies st1)(Service s \<mapsto> final)\<rparr>"
  have step: "serviceStrategy_step c ?merge s (st1, lg1) =
      Some (?mid, lg1 @ snd (parseStrategy c s))"
    using serviceStrategy_step_no_operations [OF assms(3), of c ?merge st1 lg1] D1
    by (simp add: final_def)
  have guard2: "?merge \<longrightarrow> OperationSampling (defaultStrategy ?mid) \<noteq> None"
    using D1 by (auto split: option.splits)
  from serviceStrategies_loop_total [OF guard2, where c = c and ss = post
      and lg = "lg1 @ snd (parseStrategy c s)"]
  obtain st3 lg3 where
    post: "serviceStrategies_loop c ?merge post (?mid, lg1 @ snd (parseStrategy c s)) =
        Some (st3, lg3)"
    and keep: "\<forall>n. n \<notin> Service ` set post \<longrightarrow>
        serviceStrategies st3 n = serviceStrategies ?mid n"
    by auto
  have "serviceStrategies_loop c ?merge (pre @ s # post) (?init, w) = Some (st3, lg3)"
    using pre step post by (simp add: serviceStrategies_loop_append)
  with loop assms(1) have st: "st = st3" by simp
  have entry: "serviceStrategies st (Service s) = Some final"
    using keep assms(2) st by simp
  have r0: "?base\<lparr>OperationSampling := None\<rparr> = ?base"
    using parseStrategy_no_OperationSampling [of c s] by (rule OperationSampling_update_None)
  have 1: "final\<lparr>OperationSampling := None\<rparr> = ?base"
    by (simp add: final_def r0 split: option.splits)
  have type: "StrategyType final = StrategyType ?base"
    "ProbabilisticSampling final = ProbabilisticSampling ?base"
    by (auto simp: final_def split: option.splits)
  have 2: "\<exists>p. ProbabilisticSampling final = Some p \<and>
           OperationSampling final = Some (dOpS\<lparr>DefaultSamplingProbability := SamplingRate p\<rparr>)"
    if "OperationSampling D = Some dOpS" "StrategyType final = PROBABILISTIC" for dOpS
    using that type parseStrategy_probabilistic_iff [of c s]
    by (auto simp: final_def split: option.splits)
  have 3: "OperationSampling final = None"
    if "OperationSampling D = None \<or> StrategyType final \<noteq> PROBABILISTIC"
    using that type parseStrategy_probabilistic_iff [of c s]
      parseStrategy_no_OperationSampling [of c s]
    by (auto simp: final_def split: option.splits)
  have snap: "snd (storedStrategies (Store st h)) = st"
    by (simp add: Store_def)
  show ?thesis
    apply (rule exI [of _ "Store st h"], rule exI [of _ lg], rule exI [of _ final])
    using res entry 1 2 3 D by (simp add: snap)
qed

theorem service_without_operations_inherits_witness:
  "\<exists>h' lg r r'.
     parseStrategies example_ext (Some inherit_strategies) bootstrap_store = Some (h', lg) \<and>
     defaultStrategy (snd (storedStrategies h')) = resolved_default_with_operations \<and>
     serviceStrategies (snd (storedStrategies h')) ''bar'' = Some r \<and>
     OperationSampling r = Some
       \<lparr>DefaultSamplingProbability = 0.3,
        PerOperationStrategies =
          [\<lparr>opOperation = ''A'', opProbabilisticSampling = Some \<lparr>SamplingRate = 0.1\<rparr>\<rparr>,
           \<lparr>opOperation = ''B'', opProbabilisticSampling = Some \<lparr>SamplingRate = 0.2\<rparr>\<rparr>]\<rparr> \<and>
     serviceStrategies (snd (storedStrategies h')) ''baz'' = Some r' \<and>
     OperationSampling r' = None"
proof -
  have bar: "ServiceStrategies inherit_strategies = [] @ bar_without_operations # [baz_rate_limited]"
    "Service bar_without_operations \<notin> Service ` set [baz_rate_limited]"
    "OperationStrategies bar_without_operations = []"
    by (simp_all add: inherit_strategies_def bar_without_operations_def baz_rate_limited_def)
  have baz: "ServiceStrategies inherit_strategies = [bar_without_operations] @ baz_rate_limited # []"
    "Service baz_rate_limited \<notin> Service ` set []"
    "OperationStrategies baz_rate_limited = []"
    by (simp_all add: inherit_strategies_def bar_without_operations_def baz_rate_limited_def)
  have D: "defaultStrategy (snd (storedStrategies h')) = resolved_default_with_operations"
    if "parseStrategies example_ext (Some inherit_strategies) bootstrap_store = Some (h', lg)"
    for h' lg
  proof -
    obtain D w st lg' where
      "(case DefaultStrategy inherit_strategies of
          None \<Rightarrow> Some (defaultStrategyResponse example_ext, [])
        | Some d \<Rightarrow> parseServiceStrategies example_ext d) = Some (D, w)"
      "defaultStrategy st = D"
      "parseStrategies example_ext (Some inherit_strategies) bootstrap_store =
         Some (Store st bootstrap_store, lg')"
      by (rule parseStrategies_unfold [where cfg = inherit_strategies and c = example_ext
            and h = bootstrap_store])
    with that show ?thesis
      by (auto simp: inherit_strategies_def default_with_operations_def
          resolved_default_with_operations_def Store_def resolve_simps)
  qed
  from service_without_operations_inherits [OF bar, of example_ext bootstrap_store]
  obtain h' lg r where 1:
    "parseStrategies example_ext (Some inherit_strategies) bootstrap_store = Some (h', lg)"
    "serviceStrategies (snd (storedStrategies h')) ''bar'' = Some r"
    "r\<lparr>OperationSampling := None\<rparr> = fst (parseStrategy example_ext bar_without_operations)"
    "\<forall>dOpS. OperationSampling (defaultStrategy (snd (storedStrategies h'))) = Some dOpS \<and>
        StrategyType r = PROBABILISTIC \<longrightarrow>
        (\<exists>p. ProbabilisticSampling r = Some p \<and>
           OperationSampling r =
             Some (dOpS\<lparr>DefaultSamplingProbability := SamplingRate p\<rparr>))"
    by (auto simp: bar_without_operations_def)
  from service_without_operations_inherits [OF baz, of example_ext bootstrap_store] 1(1)
  obtain r' where 2:
    "serviceStrategies (snd (storedStrategies h')) ''baz'' = Some r'"
    "r'\<lparr>OperationSampling := None\<rparr> = fst (parseStrategy example_ext baz_rate_limited)"
    "OperationSampling (defaultStrategy (snd (storedStrategies h'))) = None \<or>
        StrategyType r' \<noteq> PROBABILISTIC \<longrightarrow> OperationSampling r' = None"
    by (auto simp: baz_rate_limited_def)
  have "StrategyType (r\<lparr>OperationSampling := None\<rparr>) = PROBABILISTIC"
    "ProbabilisticSampling (r\<lparr>OperationSampling := None\<rparr>) = Some \<lparr>SamplingRate = 0.3\<rparr>"
    unfolding 1(3) by (simp_all add: bar_without_operations_def resolve_simps)
  then have r: "StrategyType r = PROBABILISTIC"
    "ProbabilisticSampling r = Some \<lparr>SamplingRate = 0.3\<rparr>"
    by simp_all
  have "StrategyType (r'\<lparr>OperationSampling := None\<rparr>) = RATE_LIMITING"
    unfolding 2(2) by (simp add: baz_rate_limited_def resolve_simps)
  then have r': "StrategyType r' = RATE_LIMITING" by simp
  from 1(4) r D [OF 1(1)] have "OperationSampling r = Some
       \<lparr>DefaultSamplingProbability = 0.3,
        PerOperationStrategies =
          [\<lparr>opOperation = ''A'', opProbabilisticSampling = Some \<lparr>SamplingRate = 0.1\<rparr>\<rparr>,
           \<lparr>opOperation = ''B'', opProbabilisticSampling = Some \<lparr>SamplingRate = 0.2\<rparr>\<rparr>]\<rparr>"
    by (simp add: resolved_default_with_operations_def)
  moreover from 2(3) r' have "OperationSampling r' = None" by simp
  ultimately show ?thesis using 1(1,2) 2(1) D [OF 1(1)] by blast
qed

subsection \<open>One entry for each operation name\<close>

lemma parseServiceStrategies_unique:
  assumes "distinct (map Operation (OperationStrategies s))"
    and "parseServiceStrategies c s = Some (r, lg)"
  shows "unique_operations r"
proof (cases "OperationStrategies s = []")
  case True
  with assms(2) show ?thesis
    using parseStrategy_no_OperationSampling [of c s]
    by (auto simp: parseServiceStrategies_no_operations unique_operations_def)
next
  case False
  let ?kept = "filter (\<lambda>x. StrategyType (fst (parseStrategy c x)) \<noteq> RATE_LIMITING)
            (OperationStrategies s)"
  from parseServiceStrategies_operations [OF False, of c] assms(2)
  obtain p where "OperationSampling r = Some
      \<lparr>DefaultSamplingProbability = p,
       PerOperationStrategies =
         map (\<lambda>x. \<lparr>opOperation = Operation x,
                   opProbabilisticSampling = ProbabilisticSampling (fst (parseStrategy c x))\<rparr>)
           ?kept\<rparr>"
    by auto
  moreover have "distinct (map Operation ?kept)"
    using assms(1) by (rule distinct_map_filter)
  ultimately show ?thesis
    by (simp add: unique_operations_def comp_def)
qed

lemma merge_distinct:
  assumes "distinct (map opOperation a)" and "distinct (map opOperation b)"
  shows "distinct (map opOperation (mergePerOperationSamplingStrategies a b))"
  using assms by (auto simp: merge_eq distinct_map_filter image_iff)

lemma serviceStrategy_step_unique:
  assumes "serviceStrategy_step c merge s (st, lg) = Some (st', lg')"
    and "distinct (map Operation (OperationStrategies s))"
    and "unique_operations (defaultStrategy st)"
    and "\<forall>n r. serviceStrategies st n = Some r \<longrightarrow> unique_operations r"
  shows "defaultStrategy st' = defaultStrategy st \<and>
         (\<forall>n r. serviceStrategies st' n = Some r \<longrightarrow> unique_operations r)"
proof -
  obtain r0 w where p: "parseServiceStrategies c s = Some (r0, w)"
    using parseServiceStrategies_total by blast
  have u: "unique_operations r0"
    using assms(2) p by (rule parseServiceStrategies_unique)
  have "\<exists>r'. unique_operations r' \<and>
      st' = st\<lparr>serviceStrategies := (serviceStrategies st)(Service s \<mapsto> r')\<rparr>"
  proof (cases "OperationSampling r0")
    case None
    show ?thesis
    proof (cases "OperationSampling (defaultStrategy st)")
      case no_table: None
      with assms(1) p None u show ?thesis
        by (auto simp: serviceStrategy_step_def Let_def)
    next
      case (Some dOpS)
      show ?thesis
      proof (cases "ProbabilisticSampling r0")
        case not_probabilistic: None
        with assms(1) p \<open>OperationSampling r0 = None\<close> Some u show ?thesis
          by (auto simp: serviceStrategy_step_def Let_def)
      next
        case (Some q)
        let ?r' = "r0\<lparr>OperationSampling :=
            Some (dOpS\<lparr>DefaultSamplingProbability := SamplingRate q\<rparr>)\<rparr>"
        have "unique_operations ?r'"
          using assms(3) \<open>OperationSampling (defaultStrategy st) = Some dOpS\<close>
          by (simp add: unique_operations_def)
        moreover have "st' = st\<lparr>serviceStrategies :=
            (serviceStrategies st)(Service s \<mapsto> ?r')\<rparr>"
          using assms(1) p \<open>OperationSampling r0 = None\<close> Some
            \<open>OperationSampling (defaultStrategy st) = Some dOpS\<close>
          by (simp add: serviceStrategy_step_def Let_def)
        ultimately show ?thesis by blast
      qed
    qed
  next
    case (Some opS)
    show ?thesis
    proof (cases merge)
      case False
      with assms(1) p Some u show ?thesis
        by (auto simp: serviceStrategy_step_def Let_def)
    next
      case True
      show ?thesis
      proof (cases "OperationSampling (defaultStrategy st)")
        case None
        with assms(1) p Some True show ?thesis
          by (simp add: serviceStrategy_step_def Let_def)
      next
        case (Some dOpS)
        let ?r' = "r0\<lparr>OperationSampling := Some (opS\<lparr>PerOperationStrategies :=
            mergePerOperationSamplingStrategies
              (PerOperationStrategies opS) (PerOperationStrategies dOpS)\<rparr>)\<rparr>"
        have "distinct (map opOperation (mergePerOperationSamplingStrategies
            (PerOperationStrategies opS) (PerOperationStrategies dOpS)))"
          using u assms(3) \<open>OperationSampling r0 = Some opS\<close> Some
          by (intro merge_distinct) (simp_all add: unique_operations_def)
        then have "unique_operations ?r'"
          by (simp add: unique_operations_def)
        moreover have "st' = st\<lparr>serviceStrategies :=
            (serviceStrategies st)(Service s \<mapsto> ?r')\<rparr>"
          using assms(1) p \<open>OperationSampling r0 = Some opS\<close> Some True
          by (simp add: serviceStrategy_step_def Let_def)
        ultimately show ?thesis by blast
      qed
    qed
  qed
  with assms(4) show ?thesis by (auto split: if_splits)
qed

lemma serviceStrategies_loop_unique:
  assumes "serviceStrategies_loop c merge ss (st, lg) = Some (st', lg')"
    and "\<forall>s \<in> set ss. distinct (map Operation (OperationStrategies s))"
    and "unique_operations (defaultStrategy st)"
    and "\<forall>n r. serviceStrategies st n = Some r \<longrightarrow> unique_operations r"
  shows "defaultStrategy st' = defaultStrategy st \<and>
         (\<forall>n r. serviceStrategies st' n = Some r \<longrightarrow> unique_operations r)"
  using assms
proof (induction ss arbitrary: st lg)
  case Nil
  then show ?case by simp
next
  case (Cons s ss)
  from Cons.prems(1) obtain st1 lg1 where
    step: "serviceStrategy_step c merge s (st, lg) = Some (st1, lg1)"
    and rest: "serviceStrategies_loop c merge ss (st1, lg1) = Some (st', lg')"
    by (auto split: Option.bind_splits)
  from serviceStrategy_step_unique [OF step _ Cons.prems(3,4)] Cons.prems(2)
  have 1: "defaultStrategy st1 = defaultStrategy st"
    "\<forall>n r. serviceStrategies st1 n = Some r \<longrightarrow> unique_operations r"
    by simp_all
  from Cons.IH [OF rest] Cons.prems(2,3) 1
  show ?case by simp
qed

text \<open>
  C5, as amended. When no operation name occurs twice within one list of operation
  strategies of the document (the default's, and each service's), resolving the document
  returns a snapshot in which the default strategy and every service strategy have at most
  one per-operation entry for each operation name.
\<close>

theorem distinct_operations_preserved:
  assumes "\<forall>d. DefaultStrategy cfg = Some d \<longrightarrow>
             distinct (map Operation (OperationStrategies d))"
    and "\<forall>s \<in> set (ServiceStrategies cfg). distinct (map Operation (OperationStrategies s))"
  shows "\<exists>h' lg. parseStrategies c (Some cfg) h = Some (h', lg) \<and>
           unique_operations (defaultStrategy (snd (storedStrategies h'))) \<and>
           (\<forall>n r. serviceStrategies (snd (storedStrategies h')) n = Some r \<longrightarrow>
              unique_operations r)"
proof -
  obtain D w st lg where
    D: "(case DefaultStrategy cfg of
        None \<Rightarrow> Some (defaultStrategyResponse c, [])
      | Some d \<Rightarrow> parseServiceStrategies c d) = Some (D, w)"
    and loop: "serviceStrategies_loop c
       (case OperationSampling D of None \<Rightarrow> False
        | Some dOpS \<Rightarrow> PerOperationStrategies dOpS \<noteq> [])
       (ServiceStrategies cfg)
       (\<lparr>defaultStrategy = D, serviceStrategies = Map.empty\<rparr>, w) = Some (st, lg)"
    and res: "parseStrategies c (Some cfg) h = Some (Store st h, lg)"
    by (rule parseStrategies_unfold [where cfg = cfg and c = c and h = h])
  have uD: "unique_operations D"
  proof (cases "DefaultStrategy cfg")
    case None
    with D show ?thesis
      by (auto simp: unique_operations_def defaultStrategyResponse_def)
  next
    case (Some d)
    with D assms(1) show ?thesis
      by (auto intro: parseServiceStrategies_unique)
  qed
  from serviceStrategies_loop_unique [OF loop assms(2)] uD
  have "defaultStrategy st = D \<and>
         (\<forall>n r. serviceStrategies st n = Some r \<longrightarrow> unique_operations r)"
    by simp
  with res uD show ?thesis by (simp add: Store_def)
qed

theorem distinct_operations_preserved_witness:
  "\<exists>h' lg. parseStrategies example_ext (Some inherit_strategies) bootstrap_store =
       Some (h', lg) \<and>
     unique_operations (defaultStrategy (snd (storedStrategies h'))) \<and>
     (\<forall>n r. serviceStrategies (snd (storedStrategies h')) n = Some r \<longrightarrow>
        unique_operations r)"
proof -
  have 1: "\<forall>d. DefaultStrategy inherit_strategies = Some d \<longrightarrow>
             distinct (map Operation (OperationStrategies d))"
    by (simp add: inherit_strategies_def default_with_operations_def)
  have 2: "\<forall>s \<in> set (ServiceStrategies inherit_strategies).
      distinct (map Operation (OperationStrategies s))"
    by (simp add: inherit_strategies_def bar_without_operations_def baz_rate_limited_def)
  from distinct_operations_preserved [OF 1 2] show ?thesis .
qed

text \<open>
  C5, as stated, fails: a service that names operation \<open>A\<close> twice keeps both entries.
\<close>

theorem duplicate_operations_counterexample:
  "parseStrategies example_ext (Some duplicate_strategies) bootstrap_store =
     Some (\<lparr>storedStrategies =
              (1, \<lparr>defaultStrategy = defaultStrategyResponse example_ext,
                   serviceStrategies = [''foo'' \<mapsto> duplicate_response]\<rparr>),
            allocated = 2\<rparr>, []) \<and>
   \<not> unique_operations duplicate_response"
  by (simp add: parseStrategies_def duplicate_strategies_def bootstrap_store_def
      duplicate_response_def defaultStrategies_def serviceStrategy_step_def Store_def
      unique_operations_def resolve_simps)

subsection \<open>Construction\<close>

lemmas store_simps =
  NewStrategyStore_def loadStrategies_def samplingStrategyLoader_def isURL_def
  downloadSamplingStrategies_def json_Unmarshal_def nullJSON_def StatusOK_def
  StatusServiceUnavailable_def parseStrategies_def serviceStrategy_step_def Store_def
  defaultStrategies_def updateSamplingStrategy_def reloadSamplingStrategy_def
  autoUpdateStrategies_def zero_strategies_def

lemmas example_simps =
  example_ext_def example_options_def serving_def not_found_def unavailable_def
  parse_http_url_def decode_foo_def foo_document_def foo_strategies_def foo_store_def
  refreshed_store_def reset_store_def

text \<open>
  C9. With a strategies file configured, a loader that fails and bytes that do not decode
  both make the constructor return the error and no store; and a store is only returned
  after the loader has returned bytes and the bytes have decoded.
\<close>

theorem failed_initial_load_returns_error:
  "StrategiesFile options \<noteq> [] \<longrightarrow>
     (samplingStrategyLoader c (StrategiesFile options) w = (Inl err, lg) \<longrightarrow>
        NewStrategyStore c options w = Some (Inl err, lg)) \<and>
     (samplingStrategyLoader c (StrategiesFile options) w = (Inr data, lg) \<and>
      json_Unmarshal c data = Inl err \<longrightarrow>
        NewStrategyStore c options w =
          Some (Inl (''failed to unmarshal strategies: '' @ err), lg)) \<and>
     (NewStrategyStore c options w = Some (Inr (h, updater), lg) \<longrightarrow>
        (\<exists>data lg' strategies.
           samplingStrategyLoader c (StrategiesFile options) w = (Inr data, lg') \<and>
           json_Unmarshal c data = Inr strategies))"
  by (auto simp: NewStrategyStore_def loadStrategies_def Let_def
      split: prod.splits sum.splits Option.bind_splits)

theorem failed_initial_load_returns_error_witness:
  "NewStrategyStore example_ext example_options not_found =
     Some (Inl ''receiving 404 Not Found while downloading strategies file: not found'',
           [(InfoLevel, ''Downloading sampling strategies'')]) \<and>
   NewStrategyStore example_ext example_options (serving ''{'') =
     Some (Inl ''failed to unmarshal strategies: invalid character'',
           [(InfoLevel, ''Downloading sampling strategies'')]) \<and>
   NewStrategyStore example_ext example_options (serving foo_document) =
     Some (Inr (foo_store, Some (samplingStrategyLoader example_ext
                  (StrategiesFile example_options))),
           [(InfoLevel, ''Downloading sampling strategies'')])"
proof -
  have configured: "StrategiesFile example_options \<noteq> []"
    by (simp add: example_options_def)
  have 1: "samplingStrategyLoader example_ext (StrategiesFile example_options) not_found =
      (Inl ''receiving 404 Not Found while downloading strategies file: not found'',
       [(InfoLevel, ''Downloading sampling strategies'')])"
    by (simp add: store_simps example_simps)
  have 2: "samplingStrategyLoader example_ext (StrategiesFile example_options) (serving ''{'') =
      (Inr ''{'', [(InfoLevel, ''Downloading sampling strategies'')])"
    "json_Unmarshal example_ext ''{'' = Inl ''invalid character''"
    by (simp_all add: store_simps example_simps)
  have 3: "NewStrategyStore example_ext example_options (serving foo_document) =
     Some (Inr (foo_store, Some (samplingStrategyLoader example_ext
                  (StrategiesFile example_options))),
           [(InfoLevel, ''Downloading sampling strategies'')])"
    by (simp add: store_simps example_simps resolve_simps)
  from failed_initial_load_returns_error [where c = example_ext and options = example_options
      and w = not_found, rule_format, OF configured, THEN conjunct1, rule_format, OF 1]
    failed_initial_load_returns_error [where c = example_ext and options = example_options
      and w = "serving ''{''", rule_format, OF configured, THEN conjunct2, THEN conjunct1,
      rule_format, OF conjI, OF 2]
    3
  show ?thesis by simp
qed

subsection \<open>Reloading\<close>





lemma parseStrategies_zero:
  "parseStrategies c (Some zero_strategies) h = Some (Store (defaultStrategies c) h, [])"
  by (simp add: parseStrategies_def zero_strategies_def defaultStrategies_def
      defaultStrategyResponse_def)

lemma reloadSamplingStrategy_null_resets:
  assumes "loadFn w = (Inr nullJSON, lg)" and "lastValue \<noteq> nullJSON"
  shows "reloadSamplingStrategy c loadFn w lastValue h =
           Some ((nullJSON, Store (defaultStrategies c) h),
                 lg @ [(InfoLevel, ''Updated sampling strategies:'' @ nullJSON)])"
  using assms
  by (simp add: reloadSamplingStrategy_def updateSamplingStrategy_def json_Unmarshal_def
      parseStrategies_zero)

text \<open>
  C1 fails on the code. After a tick has applied a document that configures service
  \<open>foo\<close>, a tick that meets status 503 decodes null into the zero value of the struct
  and stores the bootstrap defaults: the lookup of \<open>foo\<close> no longer returns its strategy.
\<close>

theorem unavailable_source_resets_store:
  "map_option fst
     (autoUpdateStrategies example_ext
        (samplingStrategyLoader example_ext (StrategiesFile example_options))
        [Tick (serving foo_document), Tick unavailable] foo_store) = Some reset_store \<and>
   fst (GetSamplingStrategy foo_store ''foo'') =
     (\<lparr>StrategyType = PROBABILISTIC,
       ProbabilisticSampling = Some \<lparr>SamplingRate = 0.8\<rparr>,
       RateLimitingSampling = None,
       OperationSampling = None\<rparr>, None) \<and>
   fst (GetSamplingStrategy reset_store ''foo'') =
     (\<lparr>StrategyType = PROBABILISTIC,
       ProbabilisticSampling = Some \<lparr>SamplingRate = 0.001\<rparr>,
       RateLimitingSampling = None,
       OperationSampling = None\<rparr>, None)"
  by (simp add: store_simps example_simps resolve_simps GetSamplingStrategy_def)

end
